theory Spec2Isabelle
  imports Complex_Main
begin

section \<open>Python numbers and exceptions\<close>

text \<open>
  The numeric code of the repository works on Python floats. A float is idealised as a
  real number: rounding, overflow (and the OverflowError of \<open>**\<close>), infinities and NaN
  are outside the model. Everything else that Python does with a float is kept:
  division by zero raises ZeroDivisionError, a negative base raised to a fractional
  power gives a Python complex number, ordering a complex number raises TypeError.
  \<open>NotReal\<close> is not an exception of Python: it marks the places where numpy carries on,
  with a warning, on a value that is complex, infinite or NaN; the model has no such
  floats and stops there.
\<close>

datatype error =
    ZeroDivisionError
  | TypeError
  | IndexError
  | UnboundLocalError
  | ValueError
  | GrainGeometryError
  | NotReal

datatype pynum = Fl real | Cx complex

fun cx :: "pynum \<Rightarrow> complex" where
  "cx (Fl a) = complex_of_real a"
| "cx (Cx c) = c"

fun is_float :: "pynum \<Rightarrow> bool" where
  "is_float (Fl a) = True"
| "is_float (Cx c) = False"

fun py_add :: "pynum \<Rightarrow> pynum \<Rightarrow> pynum" where
  "py_add (Fl a) (Fl b) = Fl (a + b)"
| "py_add a b = Cx (cx a + cx b)"

fun py_sub :: "pynum \<Rightarrow> pynum \<Rightarrow> pynum" where
  "py_sub (Fl a) (Fl b) = Fl (a - b)"
| "py_sub a b = Cx (cx a - cx b)"

fun py_mul :: "pynum \<Rightarrow> pynum \<Rightarrow> pynum" where
  "py_mul (Fl a) (Fl b) = Fl (a * b)"
| "py_mul a b = Cx (cx a * cx b)"

text \<open>
  Division of plain Python floats and complex numbers, which is what the annotation
  \<open>float\<close> of the parameters stands for: a zero divisor raises ZeroDivisionError. Division
  by a numpy float of value zero does not raise; numpy floats are modelled only where a
  value is read back from an array (see \<open>np_div\<close> below).
\<close>

fun py_div :: "pynum \<Rightarrow> pynum \<Rightarrow> error + pynum" where
  "py_div (Fl a) (Fl b) = (if b = 0 then Inl ZeroDivisionError else Inr (Fl (a / b)))"
| "py_div a b = (if cx b = 0 then Inl ZeroDivisionError else Inr (Cx (cx a / cx b)))"

fun py_le :: "pynum \<Rightarrow> pynum \<Rightarrow> error + bool" where
  "py_le (Fl a) (Fl b) = Inr (a \<le> b)"
| "py_le a b = Inl TypeError"

text \<open>
  Complex power as CPython computes it: \<open>z ** 0\<close> is 1, \<open>0 ** w\<close> is 0 for a positive real
  \<open>w\<close> and raises otherwise, and the general case goes through the polar form with the
  argument in \<open>(-pi, pi]\<close>.
\<close>

definition complex_pow :: "complex \<Rightarrow> complex \<Rightarrow> error + pynum" where
  "complex_pow a b =
     (if b = 0 then Inr (Cx 1)
      else if a = 0 then
        (if Im b \<noteq> 0 \<or> Re b < 0 then Inl ZeroDivisionError else Inr (Cx 0))
      else
        (let vabs = cmod a;
             ang = Arg a;
             len = (if Im b \<noteq> 0 then vabs powr Re b / exp (ang * Im b) else vabs powr Re b);
             phase = (if Im b \<noteq> 0 then ang * Re b + Im b * ln vabs else ang * Re b)
         in Inr (Cx (complex_of_real len * cis phase))))"

text \<open>
  Float power: \<open>x ** 0\<close> is 1, \<open>0 ** y\<close> raises for negative \<open>y\<close>, a negative base with
  an integral exponent keeps its sign rule, and a negative base with a fractional
  exponent is handed to the complex power.
\<close>

definition float_pow :: "real \<Rightarrow> real \<Rightarrow> error + pynum" where
  "float_pow x y =
     (if y = 0 then Inr (Fl 1)
      else if x = 0 then (if y < 0 then Inl ZeroDivisionError else Inr (Fl 0))
      else if x < 0 then
        (if y \<noteq> of_int \<lfloor>y\<rfloor> then complex_pow (complex_of_real x) (complex_of_real y)
         else Inr (Fl ((if odd \<lfloor>y\<rfloor> then - 1 else 1) * ((- x) powr y))))
      else Inr (Fl (x powr y)))"

fun py_pow :: "pynum \<Rightarrow> pynum \<Rightarrow> error + pynum" where
  "py_pow (Fl a) (Fl b) = float_pow a b"
| "py_pow a b = complex_pow (cx a) (cx b)"

subsection \<open>Expressions that may raise\<close>

text \<open>
  An expression is evaluated left to right and stops at the first exception; \<open>thn\<close>
  sequences two computations, the \<open>e_\<close> operators lift the arithmetic to operands that
  may themselves raise.
\<close>

definition thn :: "error + 'a \<Rightarrow> ('a \<Rightarrow> error + 'b) \<Rightarrow> error + 'b" where
  "thn m f = (case m of Inl e \<Rightarrow> Inl e | Inr x \<Rightarrow> f x)"

definition ret :: "'a \<Rightarrow> error + 'a" where
  "ret x = Inr x"

definition lit :: "real \<Rightarrow> error + pynum" where
  "lit x = Inr (Fl x)"

definition e_add :: "error + pynum \<Rightarrow> error + pynum \<Rightarrow> error + pynum" where
  "e_add x y = thn x (\<lambda>a. thn y (\<lambda>b. Inr (py_add a b)))"

definition e_sub :: "error + pynum \<Rightarrow> error + pynum \<Rightarrow> error + pynum" where
  "e_sub x y = thn x (\<lambda>a. thn y (\<lambda>b. Inr (py_sub a b)))"

definition e_mul :: "error + pynum \<Rightarrow> error + pynum \<Rightarrow> error + pynum" where
  "e_mul x y = thn x (\<lambda>a. thn y (\<lambda>b. Inr (py_mul a b)))"

definition e_div :: "error + pynum \<Rightarrow> error + pynum \<Rightarrow> error + pynum" where
  "e_div x y = thn x (\<lambda>a. thn y (\<lambda>b. py_div a b))"

definition e_pow :: "error + pynum \<Rightarrow> error + pynum \<Rightarrow> error + pynum" where
  "e_pow x y = thn x (\<lambda>a. thn y (\<lambda>b. py_pow a b))"

definition e_le :: "error + pynum \<Rightarrow> error + pynum \<Rightarrow> error + bool" where
  "e_le x y = thn x (\<lambda>a. thn y (\<lambda>b. py_le a b))"

section \<open>The Seidel pressure equation (functions/ib\_functions.py)\<close>

text \<open>
  \<open>CP_Seidel(P0, Pe, Ab, V0, At, pp, k, R, T0, r)\<close>: the critical pressure ratio, the
  nozzle-flow coefficient \<open>H\<close> of the branch taken, and the pressure derivative.
\<close>

definition CP_Seidel ::
  "pynum \<Rightarrow> pynum \<Rightarrow> pynum \<Rightarrow> pynum \<Rightarrow> pynum \<Rightarrow> pynum \<Rightarrow> pynum \<Rightarrow> pynum \<Rightarrow> pynum \<Rightarrow> pynum
     \<Rightarrow> error + pynum" where
  "CP_Seidel P0 Pe Ab V0 At pp k R T0 r =
     thn (e_pow (e_div (lit 2) (e_add (ret k) (lit 1)))
                (e_div (ret k) (e_sub (ret k) (lit 1)))) (\<lambda>P_critical_ratio.
     thn (e_le (e_div (ret Pe) (ret P0)) (ret P_critical_ratio)) (\<lambda>choked.
     thn (if choked then
            e_mul (e_pow (e_div (ret k) (e_add (ret k) (lit 1))) (lit (1/2)))
                  (e_pow (e_div (lit 2) (e_add (ret k) (lit 1)))
                         (e_div (lit 1) (e_sub (ret k) (lit 1))))
          else
            e_mul (e_pow (e_div (ret Pe) (ret P0)) (e_div (lit 1) (ret k)))
                  (e_pow (e_mul (e_div (ret k) (e_sub (ret k) (lit 1)))
                                (e_sub (lit 1)
                                       (e_pow (e_div (ret Pe) (ret P0))
                                              (e_div (e_sub (ret k) (lit 1)) (ret k)))))
                         (lit (1/2)))) (\<lambda>H.
     e_div (e_sub (e_mul (e_mul (e_mul (e_mul (ret R) (ret T0)) (ret Ab)) (ret pp)) (ret r))
                  (e_mul (e_mul (e_mul (ret P0) (ret At)) (ret H))
                         (e_pow (e_mul (e_mul (lit 2) (ret R)) (ret T0)) (lit (1/2)))))
           (ret V0))))"

subsection \<open>The equation as the specification words it\<close>

text \<open>
  The governing equation of the specification, written down independently of the code:
  the critical pressure ratio, the two closed forms of the coefficient \<open>H\<close>, and the
  derivative. Square roots are principal complex roots, so that the formula has a value
  for every input; \<open>seidel_real\<close> is the same formula on the reals, where both radicands
  are non-negative.
\<close>

definition critical_ratio :: "real \<Rightarrow> real" where
  "critical_ratio k = (2 / (k + 1)) powr (k / (k - 1))"

definition H_spec :: "real \<Rightarrow> real \<Rightarrow> real \<Rightarrow> complex" where
  "H_spec Pe P0 k =
     (if Pe / P0 \<le> critical_ratio k
      then complex_of_real (sqrt (k / (k + 1)) * (2 / (k + 1)) powr (1 / (k - 1)))
      else complex_of_real ((Pe / P0) powr (1 / k))
           * csqrt (complex_of_real ((k / (k - 1)) * (1 - (Pe / P0) powr ((k - 1) / k)))))"

definition seidel_spec ::
  "real \<Rightarrow> real \<Rightarrow> real \<Rightarrow> real \<Rightarrow> real \<Rightarrow> real \<Rightarrow> real \<Rightarrow> real \<Rightarrow> real \<Rightarrow> real
     \<Rightarrow> complex" where
  "seidel_spec P0 Pe Ab V0 At pp k R T0 r =
     (complex_of_real (R * T0 * Ab * pp * r)
        - complex_of_real (P0 * At) * H_spec Pe P0 k * csqrt (complex_of_real (2 * R * T0)))
     / complex_of_real V0"

definition H_real :: "real \<Rightarrow> real \<Rightarrow> real \<Rightarrow> real" where
  "H_real Pe P0 k =
     (if Pe / P0 \<le> critical_ratio k
      then sqrt (k / (k + 1)) * (2 / (k + 1)) powr (1 / (k - 1))
      else (Pe / P0) powr (1 / k)
           * sqrt ((k / (k - 1)) * (1 - (Pe / P0) powr ((k - 1) / k))))"

definition seidel_real ::
  "real \<Rightarrow> real \<Rightarrow> real \<Rightarrow> real \<Rightarrow> real \<Rightarrow> real \<Rightarrow> real \<Rightarrow> real \<Rightarrow> real \<Rightarrow> real
     \<Rightarrow> real" where
  "seidel_real P0 Pe Ab V0 At pp k R T0 r =
     (R * T0 * Ab * pp * r - P0 * At * H_real Pe P0 k * sqrt (2 * R * T0)) / V0"

section \<open>The pressure integrator (srm\_solver/solvers/srm\_internal\_ballistics.py)\<close>

text \<open>
  \<open>SRMInternalBallisticsSolver.solve\<close>. The derivative \<open>solve_cp_seidel\<close> is imported from
  \<open>utils.odes\<close>, which is not among the sources at hand, so it is a parameter of the
  model; \<open>CP_Seidel\<close> above is the repository's own copy of that function, with the same
  parameter list, and is what the concrete evaluations below pass in. The four
  evaluations differ in their first argument only. The result is a tuple of one element,
  written as a list.
\<close>

type_synonym derivative =
  "pynum \<Rightarrow> pynum \<Rightarrow> pynum \<Rightarrow> pynum \<Rightarrow> pynum \<Rightarrow> pynum \<Rightarrow> pynum \<Rightarrow> pynum \<Rightarrow> pynum \<Rightarrow> pynum
     \<Rightarrow> error + pynum"

definition solve ::
  "derivative \<Rightarrow> pynum \<Rightarrow> pynum \<Rightarrow> pynum \<Rightarrow> pynum \<Rightarrow> pynum \<Rightarrow> pynum \<Rightarrow> pynum \<Rightarrow> pynum
     \<Rightarrow> pynum \<Rightarrow> pynum \<Rightarrow> pynum \<Rightarrow> error + pynum list" where
  "solve solve_cp_seidel chamber_pressure external_pressure burn_area propellant_volume
         nozzle_area propellant_density k_mix_ch R_ch T_O burn_rate d_t =
     thn (solve_cp_seidel chamber_pressure
            external_pressure burn_area propellant_volume nozzle_area propellant_density
            k_mix_ch R_ch T_O burn_rate) (\<lambda>k_1.
     thn (solve_cp_seidel (py_add chamber_pressure (py_mul (py_mul (Fl 0.5) k_1) d_t))
            external_pressure burn_area propellant_volume nozzle_area propellant_density
            k_mix_ch R_ch T_O burn_rate) (\<lambda>k_2.
     thn (solve_cp_seidel (py_add chamber_pressure (py_mul (py_mul (Fl 0.5) k_2) d_t))
            external_pressure burn_area propellant_volume nozzle_area propellant_density
            k_mix_ch R_ch T_O burn_rate) (\<lambda>k_3.
     thn (solve_cp_seidel (py_add chamber_pressure (py_mul (py_mul (Fl 0.5) k_3) d_t))
            external_pressure burn_area propellant_volume nozzle_area propellant_density
            k_mix_ch R_ch T_O burn_rate) (\<lambda>k_4.
     Inr [py_add chamber_pressure
            (py_mul (py_mul (Fl (1 / 6))
                            (py_add (py_add k_1 (py_mul (Fl 2) (py_add k_2 k_3))) k_4))
                    d_t)]))))"

subsection \<open>The classic fourth-order Runge-Kutta step\<close>

text \<open>
  One classic Runge-Kutta step for a derivative \<open>f\<close> of the pressure, as the specification
  describes it: the slopes at the current state, at two half-step trial states and at the
  full-step trial state, combined with weights 1:2:2:1 and scaled by \<open>dt/6\<close>.
\<close>

definition rk4_combine :: "real \<Rightarrow> real \<Rightarrow> real \<Rightarrow> real \<Rightarrow> real \<Rightarrow> real \<Rightarrow> real" where
  "rk4_combine p k1 k2 k3 k4 dt = p + (dt / 6) * (k1 + 2 * k2 + 2 * k3 + k4)"

definition rk4_step :: "(real \<Rightarrow> real) \<Rightarrow> real \<Rightarrow> real \<Rightarrow> real" where
  "rk4_step f p dt =
     (let k1 = f p;
          k2 = f (p + 0.5 * k1 * dt);
          k3 = f (p + 0.5 * k2 * dt);
          k4 = f (p + k3 * dt)
      in rk4_combine p k1 k2 k3 k4 dt)"

section \<open>Tube-burning (BATES) segments\<close>

subsection \<open>The legacy class BATES (functions/ib\_functions.py)\<close>

text \<open>
  \<open>np.linspace(0, stop, num)\<close>: \<open>num\<close> evenly spaced samples from 0 to \<open>stop\<close>, both ends
  included; a single sample is the start.
\<close>

definition linspace0 :: "real \<Rightarrow> nat \<Rightarrow> real list" where
  "linspace0 stop num =
     (if num = 1 then [0]
      else map (\<lambda>i. real i * (stop / real (num - 1))) [0..<num])"

text \<open>Reading \<open>xs[j]\<close> for a loop index \<open>j \<ge> 0\<close>.\<close>

definition getitem :: "'a list \<Rightarrow> nat \<Rightarrow> error + 'a" where
  "getitem xs j = (if j < length xs then Inr (xs ! j) else Inl IndexError)"

record BATES =
  wr :: nat
  N :: nat
  D_grain :: real
  D_core :: "real list"
  L_grain :: "real list"

text \<open>
  One pass of the loop body of \<open>BATES.web\<close>: the row of web steps of segment \<open>j\<close>. The
  second test of the source is the negation of the first, so the chain has two outcomes.
\<close>

definition web_row :: "BATES \<Rightarrow> nat \<Rightarrow> error + real list" where
  "web_row b j =
     thn (getitem (D_core b) j) (\<lambda>d.
     thn (getitem (L_grain b) j) (\<lambda>l.
       if 0.5 * (D_grain b - d) > l then Inr (linspace0 (l / 2) (wr b))
       else Inr (linspace0 (0.5 * (D_grain b - d)) (wr b))))"

fun web_rows :: "BATES \<Rightarrow> nat list \<Rightarrow> error + real list list" where
  "web_rows b [] = Inr []"
| "web_rows b (j # js) =
     thn (web_row b j) (\<lambda>row. thn (web_rows b js) (\<lambda>rows. Inr (row # rows)))"

definition web :: "BATES \<Rightarrow> error + real list list" where
  "web b = web_rows b [0..<N b]"

definition burnArea :: "BATES \<Rightarrow> real \<Rightarrow> nat \<Rightarrow> error + real" where
  "burnArea b x j =
     thn (getitem (D_core b) j) (\<lambda>d.
     thn (getitem (L_grain b) j) (\<lambda>l.
       Inr (pi * (((D_grain b)\<^sup>2 - (d + 2 * x)\<^sup>2) / 2 + (l - 2 * x) * (d + 2 * x)))))"

subsection \<open>BatesSegment (rocketsolver/models/propulsion/grain/geometries/bates.py)\<close>

text \<open>
  The attributes every two-dimensional segment is constructed with, and the core diameter
  that BatesSegment adds. BatesSegment always passes \<open>inhibited_ends = 0\<close>.
\<close>

record GrainSegment2D =
  length_seg :: real
  outer_diameter :: real
  spacing :: real
  inhibited_ends :: int

record BatesSegment = GrainSegment2D +
  core_diameter :: real

text \<open>
  Modelled from the spec: the validation of the base class, which is not among the sources
  at hand. The specification requires a positive outer diameter and a positive length, and
  the tests of BatesSegment expect a negative spacing to be rejected.
\<close>

definition base_valid :: "'a GrainSegment2D_scheme \<Rightarrow> bool" where
  "base_valid s = (0 < outer_diameter s \<and> 0 < length_seg s \<and> 0 \<le> spacing s)"

definition validate :: "BatesSegment \<Rightarrow> error + BatesSegment" where
  "validate s =
     (if base_valid s \<and> outer_diameter s > core_diameter s \<and> core_diameter s > 0
      then Inr s else Inl GrainGeometryError)"


definition get_web_thickness :: "BatesSegment \<Rightarrow> real" where
  "get_web_thickness s = 0.5 * (outer_diameter s - core_diameter s)"

definition get_optimal_length :: "BatesSegment \<Rightarrow> real" where
  "get_optimal_length s = 1000 * 0.5 * (3 * outer_diameter s + core_diameter s)"

section \<open>Geometric helpers (rocketsolver/services/math/geometric.py)\<close>


text \<open>
  A contour is an array of points, one row per point. \<open>np.roll(contour.T, 1, axis=1)\<close>
  shifts the points one place to the right and brings the last point to the front;
  \<open>np.linalg.norm\<close> along the coordinate axis is the Euclidean length.
\<close>

type_synonym point = "real \<times> real"

definition roll1 :: "'a list \<Rightarrow> 'a list" where
  "roll1 xs = (if xs = [] then [] else last xs # butlast xs)"

definition norm2 :: "point \<Rightarrow> real" where
  "norm2 p = sqrt ((fst p)\<^sup>2 + (snd p)\<^sup>2)"

definition minus_point :: "point \<Rightarrow> point \<Rightarrow> point" where
  "minus_point p q = (fst p - fst q, snd p - snd q)"

text \<open>
  \<open>get_length(contour, map_size, tolerance)\<close>; \<open>lengths[valid]\<close> keeps the entries of
  \<open>lengths\<close> at the positions where \<open>valid\<close> holds.
\<close>

definition get_length :: "point list \<Rightarrow> int \<Rightarrow> real \<Rightarrow> real" where
  "get_length contour map_size tolerance =
     (let offset = roll1 contour;
          lengths = map (\<lambda>(p, q). norm2 (minus_point p q)) (zip contour offset);
          center_offset = (real_of_int map_size / 2, real_of_int map_size / 2);
          radius = map (\<lambda>p. norm2 (minus_point p center_offset)) contour;
          valid = map (\<lambda>r. r < real_of_int map_size / 2 - tolerance) radius
      in sum_list (map fst (filter snd (zip lengths valid))))"

text \<open>The default of the parameter \<open>tolerance\<close>.\<close>

definition default_tolerance :: real where
  "default_tolerance = 3"

subsection \<open>The contour length as the specification words it\<close>

text \<open>
  The segment that ends at point \<open>i\<close> of a contour starts at the point before it, the last
  point for \<open>i = 0\<close>; a point counts as inside when its distance to the centre of the map
  stays below half the map size by more than the tolerance.
\<close>

definition segment_length :: "point list \<Rightarrow> nat \<Rightarrow> real" where
  "segment_length contour i =
     norm2 (minus_point (contour ! i)
                        (contour ! ((i + length contour - 1) mod length contour)))"

definition inside :: "point list \<Rightarrow> int \<Rightarrow> real \<Rightarrow> nat \<Rightarrow> bool" where
  "inside contour map_size tolerance i =
     (norm2 (minus_point (contour ! i) (real_of_int map_size / 2, real_of_int map_size / 2))
        < real_of_int map_size / 2 - tolerance)"

section \<open>Raster segments (machwave/models/propulsion/grain/fmm/\_2d.py)\<close>

text \<open>
  \<open>FMMGrainSegment2D\<close>. Its base classes and the libraries it calls are not among the
  sources at hand, so what they return is carried by the segment as a field:
  \<^item> \<open>web_thickness\<close>: the value of \<open>get_web_thickness()\<close>;
  \<^item> \<open>normalize\<close>: the method that turns a web distance into map units;
  \<^item> \<open>face_area_interp_func\<close>: the interpolation object that
    \<open>get_face_area_interp_func()\<close> builds and caches; called outside its table, an
    interpolation object raises ValueError, so the call may fail;
  \<^item> \<open>face_map\<close>: the array that \<open>get_face_map(web_distance)\<close> returns, one list per row;
  \<^item> \<open>contours\<close>: the contours that \<open>get_contours(web_distance)\<close> returns.
\<close>

record FMMGrainSegment2D = GrainSegment2D +
  map_dim :: int
  web_thickness :: real
  normalize :: "real \<Rightarrow> real"
  face_area_interp_func :: "real \<Rightarrow> error + real"
  face_map :: "real \<Rightarrow> int list list"
  contours :: "real \<Rightarrow> point list list"

text \<open>
  \<open>map_to_area\<close> and \<open>map_to_length\<close>, as the raster segment of
  rocketsolver/models/propulsion/grain/fmm/d\_grain.py defines them.
\<close>

definition map_to_area :: "FMMGrainSegment2D \<Rightarrow> real \<Rightarrow> real" where
  "map_to_area s v = (outer_diameter s)\<^sup>2 * (v / (real_of_int (map_dim s))\<^sup>2)"

definition map_to_length :: "FMMGrainSegment2D \<Rightarrow> real \<Rightarrow> real" where
  "map_to_length s v = outer_diameter s * (v / real_of_int (map_dim s))"



definition get_core_perimeter :: "FMMGrainSegment2D \<Rightarrow> real \<Rightarrow> real" where
  "get_core_perimeter s web_distance =
     sum_list (map (\<lambda>contour. map_to_length s (get_length contour (map_dim s) default_tolerance))
                   (contours s web_distance))"

text \<open>
  \<open>np.where(mask)\<close> for the mask \<open>face_map == 1\<close>: the row and column indices of the cells
  that hold 1, in row-major order.
\<close>

definition where_one :: "int list list \<Rightarrow> (nat \<times> nat) list" where
  "where_one m =
     concat (map (\<lambda>(y, row). map (\<lambda>(x, v). (y, x)) (filter (\<lambda>(x, v). v = 1) (enumerate 0 row)))
                 (enumerate 0 m))"

definition mean :: "real list \<Rightarrow> real" where
  "mean xs = sum_list xs / real (length xs)"

definition get_center_of_gravity ::
  "FMMGrainSegment2D \<Rightarrow> real \<Rightarrow> error + real \<times> real \<times> real" where
  "get_center_of_gravity s web_distance =
     (if web_distance > web_thickness s then Inl GrainGeometryError
      else
        (let cells = where_one (face_map s web_distance);
             y_indices = map fst cells;
             x_indices = map snd cells
         in if length x_indices = 0 \<or> length y_indices = 0 then Inl GrainGeometryError
            else
              (let center_shift = real_of_int (map_dim s) / 2;
                   x_coords = map (\<lambda>x. real x - center_shift) x_indices;
                   y_coords = map (\<lambda>y. real y - center_shift) y_indices;
                   x_cog_normalized = mean x_coords;
                   y_cog_normalized = mean y_coords;
                   x_cog = map_to_length s x_cog_normalized;
                   y_cog = map_to_length s y_cog_normalized;
                   z_cog = length_seg s / 2
               in Inr (x_cog, y_cog, z_cog))))"

subsection \<open>The centroid as the specification words it\<close>

text \<open>
  The cells of a face map that are still solid, and their centroid in grid coordinates.
  Every cell has the same area, so the area-weighted centroid is the mean of the cell
  coordinates (column first, then row).
\<close>

definition solid_cells :: "int list list \<Rightarrow> (nat \<times> nat) set" where
  "solid_cells m = {(y, x). y < length m \<and> x < length (m ! y) \<and> m ! y ! x = 1}"

definition centroid :: "(nat \<times> nat) set \<Rightarrow> real \<times> real" where
  "centroid cells =
     ((\<Sum>c\<in>cells. real (snd c)) / real (card cells),
      (\<Sum>c\<in>cells. real (fst c)) / real (card cells))"

section \<open>The grain and its total length\<close>



text \<open>The fixtures of tests/test\_models/test\_propulsion/test\_grain/conftest.py.\<close>

definition bates_segment_olympus_45 :: BatesSegment where
  "bates_segment_olympus_45 =
     \<lparr>length_seg = 200 / 1000, outer_diameter = 117 / 1000, spacing = 10 / 1000,
      inhibited_ends = 0, core_diameter = 45 / 1000\<rparr>"





definition example_raster_segment :: FMMGrainSegment2D where
  "example_raster_segment =
     \<lparr>length_seg = 68 / 1000, outer_diameter = 1 / 10, spacing = 1 / 100, inhibited_ends = 0,
      map_dim = 2, web_thickness = 1 / 100, normalize = (\<lambda>x. x / (1 / 20)),
      face_area_interp_func = (\<lambda>d. Inr 0),
      face_map = (\<lambda>x. [[0, 1], [1, 1]]), contours = (\<lambda>x. [])\<rparr>"

section \<open>Thrust-coefficient losses (functions/ib\_functions.py)\<close>

text \<open>
  \<open>operational_correction_factors\<close> fills numpy arrays of \<open>index\<close> zeros in a loop over
  \<open>range(index)\<close>. The arrays and the coefficients \<open>C3\<close> to \<open>C6\<close>, which are local
  variables that stay unbound until a branch assigns them, form the state of the loop.
  The parameters \<open>P0\<close>, \<open>P0psi\<close>, \<open>E\<close>, \<open>V0\<close> and \<open>t\<close> are read by index and are lists of
  floats.
\<close>

record ocf_state =
  C7 :: "real list"
  termC2 :: "real list"
  E_cf :: "real list"
  n_cf :: "real list"
  n_kin :: "real list"
  n_bl :: "real list"
  n_tp :: "real list"
  C3 :: "real option"
  C4 :: "real option"
  C5 :: "real option"
  C6 :: "real option"

text \<open>
  Values on their way into and out of a float array: a float is stored as it is, a complex
  value is not a float; a value read from an array is a numpy float, whose division by
  zero and whose fractional power of a negative base do not raise.
\<close>

fun to_float64 :: "pynum \<Rightarrow> error + real" where
  "to_float64 (Fl x) = Inr x"
| "to_float64 (Cx c) = Inl NotReal"

definition store :: "error + pynum \<Rightarrow> error + real" where
  "store e = thn e to_float64"

definition item :: "real list \<Rightarrow> nat \<Rightarrow> error + pynum" where
  "item xs i = thn (getitem xs i) (\<lambda>x. Inr (Fl x))"

definition np_div :: "pynum \<Rightarrow> pynum \<Rightarrow> error + pynum" where
  "np_div a b = (if cx b = 0 then Inl NotReal else py_div a b)"

definition np_pow :: "real \<Rightarrow> real \<Rightarrow> error + pynum" where
  "np_pow x y =
     (if x < 0 \<and> y \<noteq> of_int \<lfloor>y\<rfloor> then Inl NotReal
      else if x = 0 \<and> y < 0 then Inl NotReal
      else float_pow x y)"

fun np_exp :: "pynum \<Rightarrow> pynum" where
  "np_exp (Fl x) = Fl (exp x)"
| "np_exp (Cx c) = Cx (exp c)"

definition e_exp :: "error + pynum \<Rightarrow> error + pynum" where
  "e_exp x = thn x (\<lambda>a. Inr (np_exp a))"

definition float_div :: "real \<Rightarrow> real \<Rightarrow> error + real" where
  "float_div a b = (if b = 0 then Inl ZeroDivisionError else Inr (a / b))"

fun real_of_pynum :: "pynum \<Rightarrow> real" where
  "real_of_pynum (Fl x) = x"
| "real_of_pynum (Cx c) = Re c"

definition local_var :: "real option \<Rightarrow> error + pynum" where
  "local_var v = (case v of None \<Rightarrow> Inl UnboundLocalError | Some x \<Rightarrow> Inr (Fl x))"

definition circle_area :: "pynum \<Rightarrow> error + pynum" where
  "circle_area diameter =
     e_mul (e_mul (lit pi) (lit 0.25)) (e_pow (ret diameter) (lit 2))"

text \<open>The kinetic loss of step \<open>i\<close>.\<close>

definition kinetic_losses ::
  "real list \<Rightarrow> real \<Rightarrow> real \<Rightarrow> nat \<Rightarrow> ocf_state \<Rightarrow> error + ocf_state" where
  "kinetic_losses P0psi Isp_frozen Isp_shifting i st =
     thn (getitem P0psi i) (\<lambda>p.
       if p \<ge> 200 then
         thn (store (e_div (e_mul (e_mul (lit 33.3) (lit 200))
                                  (e_div (lit Isp_frozen) (lit Isp_shifting)))
                           (item P0psi i))) (\<lambda>v.
         Inr (st\<lparr>n_kin := (n_kin st)[i := v]\<rparr>))
       else Inr (st\<lparr>n_kin := (n_kin st)[i := 0]\<rparr>))"

text \<open>
  The choice of \<open>C3\<close> to \<open>C6\<close> from the throat diameter and \<open>C7[i]\<close>. In the second group the
  first test divides by 0.0245 and the later ones by 0.0254; where no test holds, the
  variables keep what they held.
\<close>

definition two_phase_coefficients :: "real \<Rightarrow> real \<Rightarrow> nat \<Rightarrow> ocf_state \<Rightarrow> error + ocf_state" where
  "two_phase_coefficients Dt M i st =
     thn (float_div 1 M) (\<lambda>m1.
       if m1 \<ge> 0.9 then
         (let st = st\<lparr>C4 := Some 0.5\<rparr> in
          if Dt / 0.0254 < 1 then Inr (st\<lparr>C3 := Some 9, C5 := Some 1, C6 := Some 1\<rparr>)
          else if 1 \<le> Dt / 0.0254 \<and> Dt / 0.0254 < 2 then
            Inr (st\<lparr>C3 := Some 9, C5 := Some 1, C6 := Some 0.8\<rparr>)
          else if Dt / 0.0254 \<ge> 2 then
            (if C7 st ! i < 4 then Inr (st\<lparr>C3 := Some 13.4, C5 := Some 0.8, C6 := Some 0.8\<rparr>)
             else if 4 \<le> C7 st ! i \<and> C7 st ! i \<le> 8 then
               Inr (st\<lparr>C3 := Some 10.2, C5 := Some 0.8, C6 := Some 0.4\<rparr>)
             else if C7 st ! i > 8 then
               Inr (st\<lparr>C3 := Some 7.58, C5 := Some 0.8, C6 := Some 0.33\<rparr>)
             else Inr st)
          else Inr st)
       else
         thn (float_div 1 M) (\<lambda>m2.
           if m2 < 0.9 then
             (let st = st\<lparr>C4 := Some 1\<rparr> in
              if Dt / 0.0245 < 1 then Inr (st\<lparr>C3 := Some 44.5, C5 := Some 0.8, C6 := Some 0.8\<rparr>)
              else if 1 \<le> Dt / 0.0254 \<and> Dt / 0.0254 < 2 then
                Inr (st\<lparr>C3 := Some 30.4, C5 := Some 0.8, C6 := Some 0.4\<rparr>)
              else if Dt / 0.0254 \<ge> 2 then
                (if C7 st ! i < 4 then
                   Inr (st\<lparr>C3 := Some 44.5, C5 := Some 0.8, C6 := Some 0.8\<rparr>)
                 else if 4 \<le> C7 st ! i \<and> C7 st ! i \<le> 8 then
                   Inr (st\<lparr>C3 := Some 30.4, C5 := Some 0.8, C6 := Some 0.4\<rparr>)
                 else if C7 st ! i > 8 then
                   Inr (st\<lparr>C3 := Some 25.2, C5 := Some 0.8, C6 := Some 0.33\<rparr>)
                 else Inr st)
              else Inr st)
           else Inr st))"

text \<open>
  The boundary-layer and two-phase losses of step \<open>i\<close> in the branch at or below the
  critical pressure ratio, statement by statement.
\<close>

definition losses_below_critical ::
  "real list \<Rightarrow> real list \<Rightarrow> real \<Rightarrow> real \<Rightarrow> real \<Rightarrow> real \<Rightarrow> real list \<Rightarrow> real
     \<Rightarrow> real list \<Rightarrow> nat \<Rightarrow> ocf_state \<Rightarrow> error + ocf_state" where
  "losses_below_critical P0psi E Dt qsi C1 C2 V0 M t i st =
     thn (store (e_add (lit 1) (e_mul (lit 2)
            (e_exp (e_div (e_mul (e_mul (lit (- C2)) (e_pow (item P0psi i) (lit 0.8)))
                                 (item t i))
                          (e_pow (e_div (lit Dt) (lit 0.0254)) (lit 0.2))))))) (\<lambda>v1.
     let st = st\<lparr>termC2 := (termC2 st)[i := v1]\<rparr> in
     thn (store (e_add (lit 1) (e_mul (lit 0.016) (e_pow (item E i) (lit (- 9)))))) (\<lambda>v2.
     let st = st\<lparr>E_cf := (E_cf st)[i := v2]\<rparr> in
     thn (store (e_mul (e_mul (e_mul (lit C1)
                                (e_div (e_pow (item P0psi i) (lit 0.8))
                                       (e_pow (e_div (lit Dt) (lit 0.0254)) (lit 0.2))))
                         (lit (termC2 st ! i)))
                  (lit (E_cf st ! i)))) (\<lambda>v3.
     let st = st\<lparr>n_bl := (n_bl st)[i := v3]\<rparr> in
     thn (store (e_mul (e_mul (e_mul (lit 0.454) (e_pow (item P0psi i) (lit 0.33)))
                              (e_pow (lit qsi) (lit 0.33)))
                       (e_sub (lit 1)
                              (e_mul (e_exp (e_div (e_mul (lit (- 0.004))
                                                          (e_div (item V0 1) (circle_area (Fl Dt))))
                                                   (lit 0.0254)))
                                     (e_add (lit 1)
                                            (e_div (e_mul (lit 0.045) (lit Dt)) (lit 0.0254))))))) (\<lambda>v4.
     let st = st\<lparr>C7 := (C7 st)[i := v4]\<rparr> in
     thn (two_phase_coefficients Dt M i st) (\<lambda>st.
     thn (store
            (thn (local_var (C3 st)) (\<lambda>c3.
             thn (e_mul (e_mul (lit qsi) (local_var (C4 st)))
                        (thn (local_var (C5 st)) (\<lambda>c5. np_pow (C7 st ! i) (real_of_pynum c5)))) (\<lambda>numerator.
             thn (e_mul (e_mul (e_pow (item P0psi i) (lit 0.15)) (e_pow (item E i) (lit 0.08)))
                        (e_pow (e_div (lit Dt) (lit 0.0254)) (local_var (C6 st)))) (\<lambda>denominator.
             thn (np_div numerator denominator) (\<lambda>quotient.
             Inr (py_mul c3 quotient))))))) (\<lambda>v5.
     Inr (st\<lparr>n_tp := (n_tp st)[i := v5]\<rparr>)))))))"

text \<open>One pass of the loop body.\<close>

definition ocf_step ::
  "real list \<Rightarrow> real \<Rightarrow> real list \<Rightarrow> real \<Rightarrow> real \<Rightarrow> real list \<Rightarrow> real \<Rightarrow> real \<Rightarrow> real
     \<Rightarrow> real \<Rightarrow> real \<Rightarrow> real list \<Rightarrow> real \<Rightarrow> real list \<Rightarrow> nat \<Rightarrow> ocf_state \<Rightarrow> error + ocf_state" where
  "ocf_step P0 Pe P0psi Isp_frozen Isp_shifting E Dt qsi critical_pressure_ratio C1 C2 V0 M t i st =
     thn (kinetic_losses P0psi Isp_frozen Isp_shifting i st) (\<lambda>st.
     thn (getitem P0 i) (\<lambda>p0.
     thn (float_div Pe p0) (\<lambda>ratio.
       if ratio \<le> critical_pressure_ratio
       then losses_below_critical P0psi E Dt qsi C1 C2 V0 M t i st
       else Inr (st\<lparr>n_tp := (n_tp st)[i := 0], n_bl := (n_bl st)[i := 0]\<rparr>))))"

fun ocf_loop ::
  "real list \<Rightarrow> real \<Rightarrow> real list \<Rightarrow> real \<Rightarrow> real \<Rightarrow> real list \<Rightarrow> real \<Rightarrow> real \<Rightarrow> real
     \<Rightarrow> real \<Rightarrow> real \<Rightarrow> real list \<Rightarrow> real \<Rightarrow> real list \<Rightarrow> nat list \<Rightarrow> ocf_state \<Rightarrow> error + ocf_state" where
  "ocf_loop P0 Pe P0psi Isp_frozen Isp_shifting E Dt qsi critical_pressure_ratio C1 C2 V0 M t [] st
     = Inr st"
| "ocf_loop P0 Pe P0psi Isp_frozen Isp_shifting E Dt qsi critical_pressure_ratio C1 C2 V0 M t (i # is) st
     = thn (ocf_step P0 Pe P0psi Isp_frozen Isp_shifting E Dt qsi critical_pressure_ratio
                     C1 C2 V0 M t i st) (\<lambda>st.
       ocf_loop P0 Pe P0psi Isp_frozen Isp_shifting E Dt qsi critical_pressure_ratio
                C1 C2 V0 M t is st)"

text \<open>\<open>np.zeros(index)\<close> raises ValueError for a negative \<open>index\<close>.\<close>

definition zeros :: "int \<Rightarrow> error + real list" where
  "zeros n = (if n < 0 then Inl ValueError else Inr (replicate (nat n) 0))"

definition operational_correction_factors ::
  "real list \<Rightarrow> real \<Rightarrow> real list \<Rightarrow> real \<Rightarrow> real \<Rightarrow> real list \<Rightarrow> real \<Rightarrow> real \<Rightarrow> int
     \<Rightarrow> real \<Rightarrow> real \<Rightarrow> real \<Rightarrow> real list \<Rightarrow> real \<Rightarrow> real list
     \<Rightarrow> error + real list \<times> real list \<times> real list" where
  "operational_correction_factors P0 Pe P0psi Isp_frozen Isp_shifting E Dt qsi index
       critical_pressure_ratio C1 C2 V0 M t =
     thn (zeros index) (\<lambda>z.
     thn (ocf_loop P0 Pe P0psi Isp_frozen Isp_shifting E Dt qsi critical_pressure_ratio
                   C1 C2 V0 M t [0..<nat index]
                   \<lparr>C7 = z, termC2 = z, E_cf = z, n_cf = z, n_kin = z, n_bl = z, n_tp = z,
                    C3 = None, C4 = None, C5 = None, C6 = None\<rparr>) (\<lambda>st.
     Inr (n_kin st, n_tp st, n_bl st)))"

subsection \<open>The kinetic loss in closed form\<close>

text \<open>
  The kinetic loss percentage at a chamber pressure of \<open>p\<close> psi, as the loop assigns it:
  it depends on that pressure and on the two specific impulses only.
\<close>

definition kinetic_loss_percent :: "real \<Rightarrow> real \<Rightarrow> real \<Rightarrow> real" where
  "kinetic_loss_percent p Isp_frozen Isp_shifting =
     (if p \<ge> 200 then 33.3 * 200 * (Isp_frozen / Isp_shifting) / p else 0)"

section \<open>Helper lemmas\<close>

lemma thn_Inr [simp]: "thn (Inr x) f = f x"
  by (simp add: thn_def)

lemma thn_Inl [simp]: "thn (Inl e) f = Inl e"
  by (simp add: thn_def)

lemma thn_eq_Inr: "thn m f = Inr y \<longleftrightarrow> (\<exists>x. m = Inr x \<and> f x = Inr y)"
  by (cases m) simp_all

section \<open>The Seidel pressure equation\<close>

lemmas e_defs = ret_def lit_def e_add_def e_sub_def e_mul_def e_div_def e_pow_def e_le_def

lemma float_pow_pos: "0 < x \<Longrightarrow> y \<noteq> 0 \<Longrightarrow> float_pow x y = Inr (Fl (x powr y))"
  by (simp add: float_pow_def)

lemma Arg_of_real_neg: "x < 0 \<Longrightarrow> Arg (complex_of_real x) = pi"
  by (rule cis_Arg_unique) (simp_all add: sgn_eq)

lemma float_pow_half_nonneg: "0 \<le> x \<Longrightarrow> float_pow x (1/2) = Inr (Fl (sqrt x))"
  by (simp add: float_pow_def powr_half_sqrt)

lemma float_pow_half_neg:
  "x < 0 \<Longrightarrow> float_pow x (1/2) = Inr (Cx (\<i> * complex_of_real (sqrt \<bar>x\<bar>)))"
proof -
  assume x: "x < 0"
  have "float_pow x (1/2) = complex_pow (complex_of_real x) (complex_of_real (1/2))"
    using x by (simp add: float_pow_def)
  also have "\<dots> = Inr (Cx (complex_of_real (\<bar>x\<bar> powr (1/2)) * cis (pi * (1/2))))"
    using x by (simp add: complex_pow_def Arg_of_real_neg Let_def)
  also have "\<dots> = Inr (Cx (\<i> * complex_of_real (sqrt \<bar>x\<bar>)))"
    by (simp add: powr_half_sqrt cis_pi_half)
  finally show ?thesis .
qed

lemma float_pow_half_cx:
  "\<exists>v. float_pow x (1/2) = Inr v \<and> cx v = csqrt (complex_of_real x) \<and> (0 \<le> x \<longrightarrow> v = Fl (sqrt x))"
proof (cases "0 \<le> x")
  case True
  then show ?thesis by (simp add: float_pow_half_nonneg)
next
  case False
  then show ?thesis by (simp add: float_pow_half_neg)
qed

lemma cx_py_mul [simp]: "cx (py_mul a b) = cx a * cx b"
  by (cases a; cases b) simp_all
lemma cx_py_sub [simp]: "cx (py_sub a b) = cx a - cx b"
  by (cases a; cases b) simp_all
lemma cx_py_add [simp]: "cx (py_add a b) = cx a + cx b"
  by (cases a; cases b) simp_all
lemma py_div_cx: "cx b \<noteq> 0 \<Longrightarrow> \<exists>q. py_div a b = Inr q \<and> cx q = cx a / cx b"
  by (cases a; cases b) simp_all

text \<open>The last statement of \<open>CP_Seidel\<close>, once \<open>H\<close> is known.\<close>

lemma seidel_tail:
  assumes "V0 \<noteq> 0"
  shows "\<exists>v. e_div (e_sub (e_mul (e_mul (e_mul (e_mul (ret (Fl R)) (ret (Fl T0))) (ret (Fl Ab))) (ret (Fl pp))) (ret (Fl r)))
                  (e_mul (e_mul (e_mul (ret (Fl P0)) (ret (Fl At))) (ret H))
                         (e_pow (e_mul (e_mul (lit 2) (ret (Fl R))) (ret (Fl T0))) (lit (1/2)))))
           (ret (Fl V0)) = Inr v
       \<and> cx v = (complex_of_real (R * T0 * Ab * pp * r)
                  - complex_of_real (P0 * At) * cx H * csqrt (complex_of_real (2 * R * T0)))
                 / complex_of_real V0
       \<and> (\<forall>h. H = Fl h \<and> 0 \<le> R * T0 \<longrightarrow>
              v = Fl ((R * T0 * Ab * pp * r - P0 * At * h * sqrt (2 * R * T0)) / V0))"
proof -
  obtain s where s: "float_pow (2 * R * T0) (1/2) = Inr s"
    "cx s = csqrt (complex_of_real (2 * R * T0))" "0 \<le> 2 * R * T0 \<longrightarrow> s = Fl (sqrt (2 * R * T0))"
    using float_pow_half_cx by blast
  let ?num = "py_sub (Fl (R * T0 * Ab * pp * r)) (py_mul (py_mul (Fl (P0 * At)) H) s)"
  obtain q where q: "py_div ?num (Fl V0) = Inr q" "cx q = cx ?num / cx (Fl V0)"
    using py_div_cx[of "Fl V0" ?num] assms by auto
  have "e_div (e_sub (e_mul (e_mul (e_mul (e_mul (ret (Fl R)) (ret (Fl T0))) (ret (Fl Ab))) (ret (Fl pp))) (ret (Fl r)))
                  (e_mul (e_mul (e_mul (ret (Fl P0)) (ret (Fl At))) (ret H))
                         (e_pow (e_mul (e_mul (lit 2) (ret (Fl R))) (ret (Fl T0))) (lit (1/2)))))
           (ret (Fl V0)) = Inr q"
    using s(1) q(1) by (simp add: e_defs)
  moreover have "cx q = (complex_of_real (R * T0 * Ab * pp * r)
                  - complex_of_real (P0 * At) * cx H * csqrt (complex_of_real (2 * R * T0)))
                 / complex_of_real V0"
    using q(2) s(2) by simp
  moreover have "\<forall>h. H = Fl h \<and> 0 \<le> R * T0 \<longrightarrow>
              q = Fl ((R * T0 * Ab * pp * r - P0 * At * h * sqrt (2 * R * T0)) / V0)"
  proof (intro allI impI)
    fix h assume h: "H = Fl h \<and> 0 \<le> R * T0"
    then have "s = Fl (sqrt (2 * R * T0))" using s(3)
      by (simp add: mult.assoc)
    with h q(1) assms show "q = Fl ((R * T0 * Ab * pp * r - P0 * At * h * sqrt (2 * R * T0)) / V0)"
      by simp
  qed
  ultimately show ?thesis by blast
qed

lemma critical_ratio_pos: "1 < k \<Longrightarrow> 0 < critical_ratio k"
  by (simp add: critical_ratio_def)

lemma seidel_crit:
  assumes "1 < k"
  shows "e_pow (e_div (lit 2) (e_add (ret (Fl k)) (lit 1)))
               (e_div (ret (Fl k)) (e_sub (ret (Fl k)) (lit 1))) = Inr (Fl (critical_ratio k))"
  using assms by (simp add: e_defs float_pow_pos critical_ratio_def)

lemma seidel_test:
  assumes "P0 \<noteq> 0"
  shows "e_le (e_div (ret (Fl Pe)) (ret (Fl P0))) (ret (Fl c)) = Inr (Pe / P0 \<le> c)"
  using assms by (simp add: e_defs)

lemma seidel_H_choked:
  assumes "1 < k"
  shows "e_mul (e_pow (e_div (ret (Fl k)) (e_add (ret (Fl k)) (lit 1))) (lit (1/2)))
               (e_pow (e_div (lit 2) (e_add (ret (Fl k)) (lit 1)))
                      (e_div (lit 1) (e_sub (ret (Fl k)) (lit 1))))
         = Inr (Fl (sqrt (k / (k + 1)) * (2 / (k + 1)) powr (1 / (k - 1))))"
  using assms by (simp add: e_defs float_pow_pos powr_half_sqrt)

lemma seidel_H_unchoked:
  assumes "1 < k" "P0 \<noteq> 0" "0 < Pe / P0"
  shows "\<exists>H. e_mul (e_pow (e_div (ret (Fl Pe)) (ret (Fl P0))) (e_div (lit 1) (ret (Fl k))))
                  (e_pow (e_mul (e_div (ret (Fl k)) (e_sub (ret (Fl k)) (lit 1)))
                                (e_sub (lit 1)
                                       (e_pow (e_div (ret (Fl Pe)) (ret (Fl P0)))
                                              (e_div (e_sub (ret (Fl k)) (lit 1)) (ret (Fl k))))))
                         (lit (1/2))) = Inr H
      \<and> cx H = complex_of_real ((Pe / P0) powr (1 / k))
                * csqrt (complex_of_real ((k / (k - 1)) * (1 - (Pe / P0) powr ((k - 1) / k))))
      \<and> (0 \<le> (k / (k - 1)) * (1 - (Pe / P0) powr ((k - 1) / k)) \<longrightarrow>
           H = Fl ((Pe / P0) powr (1 / k)
                   * sqrt ((k / (k - 1)) * (1 - (Pe / P0) powr ((k - 1) / k)))))"
proof -
  let ?b = "(k / (k - 1)) * (1 - (Pe / P0) powr ((k - 1) / k))"
  obtain s where s: "float_pow ?b (1/2) = Inr s" "cx s = csqrt (complex_of_real ?b)"
    "0 \<le> ?b \<longrightarrow> s = Fl (sqrt ?b)"
    using float_pow_half_cx by blast
  have "e_mul (e_pow (e_div (ret (Fl Pe)) (ret (Fl P0))) (e_div (lit 1) (ret (Fl k))))
                  (e_pow (e_mul (e_div (ret (Fl k)) (e_sub (ret (Fl k)) (lit 1)))
                                (e_sub (lit 1)
                                       (e_pow (e_div (ret (Fl Pe)) (ret (Fl P0)))
                                              (e_div (e_sub (ret (Fl k)) (lit 1)) (ret (Fl k))))))
                         (lit (1/2))) = Inr (py_mul (Fl ((Pe / P0) powr (1 / k))) s)"
    using assms s(1) by (simp add: e_defs float_pow_pos)
  moreover have "cx (py_mul (Fl ((Pe / P0) powr (1 / k))) s)
       = complex_of_real ((Pe / P0) powr (1 / k)) * csqrt (complex_of_real ?b)"
    using s(2) by simp
  moreover have "0 \<le> ?b \<longrightarrow> py_mul (Fl ((Pe / P0) powr (1 / k))) s
       = Fl ((Pe / P0) powr (1 / k) * sqrt ?b)"
    using s(3) by auto
  ultimately show ?thesis by blast
qed

lemma unchoked_radicand_nonneg:
  assumes "1 < (k::real)" "0 < (q::real)" "q \<le> 1"
  shows "0 \<le> (k / (k - 1)) * (1 - q powr ((k - 1) / k))"
proof -
  have "\<bar>q\<bar> \<le> 1" using assms by simp
  then have "q powr ((k - 1) / k) \<le> 1"
    using assms(1) by (intro powr_le1) auto
  then show ?thesis using assms by simp
qed

lemma CP_Seidel_value:
  assumes "P0 \<noteq> 0" "V0 \<noteq> 0" "1 < k"
  shows "\<exists>v. CP_Seidel (Fl P0) (Fl Pe) (Fl Ab) (Fl V0) (Fl At) (Fl pp) (Fl k) (Fl R) (Fl T0) (Fl r)
              = Inr v
           \<and> cx v = seidel_spec P0 Pe Ab V0 At pp k R T0 r
           \<and> (0 \<le> R * T0 \<and> Pe / P0 \<le> 1 \<longrightarrow>
                v = Fl (seidel_real P0 Pe Ab V0 At pp k R T0 r))"
proof (cases "Pe / P0 \<le> critical_ratio k")
  case True
  let ?h = "sqrt (k / (k + 1)) * (2 / (k + 1)) powr (1 / (k - 1))"
  obtain v where v: "e_div (e_sub (e_mul (e_mul (e_mul (e_mul (ret (Fl R)) (ret (Fl T0))) (ret (Fl Ab))) (ret (Fl pp))) (ret (Fl r)))
                  (e_mul (e_mul (e_mul (ret (Fl P0)) (ret (Fl At))) (ret (Fl ?h)))
                         (e_pow (e_mul (e_mul (lit 2) (ret (Fl R))) (ret (Fl T0))) (lit (1/2)))))
           (ret (Fl V0)) = Inr v"
    "cx v = (complex_of_real (R * T0 * Ab * pp * r)
                  - complex_of_real (P0 * At) * cx (Fl ?h) * csqrt (complex_of_real (2 * R * T0)))
                 / complex_of_real V0"
    "\<forall>h. Fl ?h = Fl h \<and> 0 \<le> R * T0 \<longrightarrow>
              v = Fl ((R * T0 * Ab * pp * r - P0 * At * h * sqrt (2 * R * T0)) / V0)"
    using seidel_tail[OF assms(2), of R T0 Ab pp r P0 At "Fl ?h"] by blast
  have run: "CP_Seidel (Fl P0) (Fl Pe) (Fl Ab) (Fl V0) (Fl At) (Fl pp) (Fl k) (Fl R) (Fl T0) (Fl r)
      = Inr v"
    unfolding CP_Seidel_def
    by (simp only: seidel_crit[OF assms(3)] thn_Inr seidel_test[OF assms(1)] True if_True
        seidel_H_choked[OF assms(3)] v(1))
  have "cx v = seidel_spec P0 Pe Ab V0 At pp k R T0 r"
    using v(2) True by (simp add: seidel_spec_def H_spec_def)
  moreover have "0 \<le> R * T0 \<longrightarrow> v = Fl (seidel_real P0 Pe Ab V0 At pp k R T0 r)"
    using v(3) True by (simp add: seidel_real_def H_real_def)
  ultimately show ?thesis using run by blast
next
  case False
  then have pos: "0 < Pe / P0" using critical_ratio_pos[OF assms(3)] by linarith
  let ?b = "(k / (k - 1)) * (1 - (Pe / P0) powr ((k - 1) / k))"
  obtain H where H: "e_mul (e_pow (e_div (ret (Fl Pe)) (ret (Fl P0))) (e_div (lit 1) (ret (Fl k))))
                  (e_pow (e_mul (e_div (ret (Fl k)) (e_sub (ret (Fl k)) (lit 1)))
                                (e_sub (lit 1)
                                       (e_pow (e_div (ret (Fl Pe)) (ret (Fl P0)))
                                              (e_div (e_sub (ret (Fl k)) (lit 1)) (ret (Fl k))))))
                         (lit (1/2))) = Inr H"
    "cx H = complex_of_real ((Pe / P0) powr (1 / k)) * csqrt (complex_of_real ?b)"
    "0 \<le> ?b \<longrightarrow> H = Fl ((Pe / P0) powr (1 / k) * sqrt ?b)"
    using seidel_H_unchoked[OF assms(3) assms(1) pos] by blast
  obtain v where v: "e_div (e_sub (e_mul (e_mul (e_mul (e_mul (ret (Fl R)) (ret (Fl T0))) (ret (Fl Ab))) (ret (Fl pp))) (ret (Fl r)))
                  (e_mul (e_mul (e_mul (ret (Fl P0)) (ret (Fl At))) (ret H))
                         (e_pow (e_mul (e_mul (lit 2) (ret (Fl R))) (ret (Fl T0))) (lit (1/2)))))
           (ret (Fl V0)) = Inr v"
    "cx v = (complex_of_real (R * T0 * Ab * pp * r)
                  - complex_of_real (P0 * At) * cx H * csqrt (complex_of_real (2 * R * T0)))
                 / complex_of_real V0"
    "\<forall>h. H = Fl h \<and> 0 \<le> R * T0 \<longrightarrow>
              v = Fl ((R * T0 * Ab * pp * r - P0 * At * h * sqrt (2 * R * T0)) / V0)"
    using seidel_tail[OF assms(2), of R T0 Ab pp r P0 At H] by blast
  have run: "CP_Seidel (Fl P0) (Fl Pe) (Fl Ab) (Fl V0) (Fl At) (Fl pp) (Fl k) (Fl R) (Fl T0) (Fl r)
      = Inr v"
    unfolding CP_Seidel_def
    by (simp only: seidel_crit[OF assms(3)] thn_Inr seidel_test[OF assms(1)] False if_False
        H(1) v(1))
  have "cx v = seidel_spec P0 Pe Ab V0 At pp k R T0 r"
    using v(2) H(2) False by (simp add: seidel_spec_def H_spec_def)
  moreover have "0 \<le> R * T0 \<and> Pe / P0 \<le> 1 \<longrightarrow> v = Fl (seidel_real P0 Pe Ab V0 At pp k R T0 r)"
  proof
    assume a: "0 \<le> R * T0 \<and> Pe / P0 \<le> 1"
    then have "0 \<le> ?b" using unchoked_radicand_nonneg[OF assms(3) pos] by blast
    then have "H = Fl ((Pe / P0) powr (1 / k) * sqrt ?b)" using H(3) by blast
    with v(3) a False show "v = Fl (seidel_real P0 Pe Ab V0 At pp k R T0 r)"
      by (simp add: seidel_real_def H_real_def)
  qed
  ultimately show ?thesis using run by blast
qed

text \<open>
  C2. For \<open>P0 > 0\<close>, \<open>V0 \<noteq> 0\<close> and \<open>k > 1\<close>, \<open>CP_Seidel\<close> returns
  \<open>(R*T0*Ab*pp*r - P0*At*H*sqrt(2*R*T0)) / V0\<close>, where \<open>H\<close> is the choked closed form
  when \<open>Pe/P0\<close> is at most the critical pressure ratio and the pressure-ratio form
  otherwise. The value is a float, equal to the real formula, when \<open>R*T0 \<ge> 0\<close> and
  \<open>Pe \<le> P0\<close>; in the remaining cases a radicand is negative and the returned number is the
  same formula with principal complex square roots.
\<close>

theorem CP_Seidel_formula:
  assumes "0 < P0" "V0 \<noteq> 0" "1 < k"
  shows "\<exists>v. CP_Seidel (Fl P0) (Fl Pe) (Fl Ab) (Fl V0) (Fl At) (Fl pp) (Fl k) (Fl R) (Fl T0) (Fl r)
              = Inr v
           \<and> cx v = seidel_spec P0 Pe Ab V0 At pp k R T0 r
           \<and> (0 \<le> R * T0 \<and> Pe \<le> P0 \<longrightarrow>
                v = Fl (seidel_real P0 Pe Ab V0 At pp k R T0 r))"
proof -
  have "Pe \<le> P0 \<longrightarrow> Pe / P0 \<le> 1" using assms(1) by simp
  moreover have "P0 \<noteq> 0" using assms(1) by simp
  ultimately show ?thesis using CP_Seidel_value[OF _ assms(2,3), of P0 Pe Ab At pp R T0 r]
    by blast
qed

text \<open>
  C6 (amended). For every combination of inputs with \<open>P0 \<noteq> 0\<close>, \<open>V0 \<noteq> 0\<close> and \<open>k > 1\<close>,
  a negative chamber free volume \<open>V0\<close> and a zero burn area included, \<open>CP_Seidel\<close> raises
  no error and returns a number.
\<close>

theorem CP_Seidel_no_error:
  assumes "P0 \<noteq> 0" "V0 \<noteq> 0" "1 < k"
  shows "\<exists>v. CP_Seidel (Fl P0) (Fl Pe) (Fl Ab) (Fl V0) (Fl At) (Fl pp) (Fl k) (Fl R) (Fl T0) (Fl r)
              = Inr v"
  using CP_Seidel_value[OF assms, of Pe Ab At pp R T0 r] by blast

theorem CP_Seidel_no_error_witness:
  "(1::real) \<noteq> 0 \<and> (- 1::real) \<noteq> 0 \<and> 1 < (2::real)
   \<and> (\<exists>v. CP_Seidel (Fl 1) (Fl 0) (Fl 0) (Fl (- 1)) (Fl 1) (Fl 1) (Fl 2) (Fl 1) (Fl 1) (Fl 1) = Inr v)"
  using CP_Seidel_no_error [of 1 "- 1" 2 0 0 1 1 1 1]
  by simp

text \<open>
  A call with plain Python floats, a zero chamber free volume and a zero burn area: the
  final division is a float division by zero and raises.
\<close>

theorem CP_Seidel_raises_counterexample:
  "CP_Seidel (Fl 1) (Fl 0) (Fl 0) (Fl 0) (Fl 0) (Fl 0) (Fl 2) (Fl 0) (Fl 0) (Fl 0)
     = Inl ZeroDivisionError"
  by (simp add: CP_Seidel_def e_defs float_pow_def)

theorem CP_Seidel_formula_witness:
  "0 < (1::real) \<and> (1::real) \<noteq> 0 \<and> 1 < (2::real) \<and> 0 \<le> (2::real) * 1 \<and> (0::real) \<le> 1
   \<and> CP_Seidel (Fl 1) (Fl 0) (Fl 1) (Fl 1) (Fl 1) (Fl 1) (Fl 2) (Fl 2) (Fl 1) (Fl 1)
        = Inr (Fl (seidel_real 1 0 1 1 1 1 2 2 1 1))
   \<and> complex_of_real (seidel_real 1 0 1 1 1 1 2 2 1 1) = seidel_spec 1 0 1 1 1 1 2 2 1 1"
  using CP_Seidel_formula [of 1 1 2 0 1 1 1 2 1 1]
  by auto

section \<open>The pressure integrator\<close>

lemma seidel_real_linear: "seidel_real p 0 0 1 (3/4) 1 2 3 1 1 = - p"
proof -
  have "sqrt (2/3) * sqrt 6 = sqrt 4"
    by (simp only: real_sqrt_mult [symmetric]) simp
  then have s: "sqrt (2/3) * sqrt 6 = 2" by simp
  have "seidel_real p 0 0 1 (3/4) 1 2 3 1 1 = - (p * (3/4) * (sqrt (2/3) * (2/3)) * sqrt 6)"
    by (simp add: seidel_real_def H_real_def critical_ratio_def)
  also have "\<dots> = - (p * (1/2) * (sqrt (2/3) * sqrt 6))" by simp
  also have "\<dots> = - p" by (simp add: s)
  finally show ?thesis .
qed

lemma seidel_linear:
  assumes "p \<noteq> 0"
  shows "CP_Seidel (Fl p) (Fl 0) (Fl 0) (Fl 1) (Fl (3/4)) (Fl 1) (Fl 2) (Fl 3) (Fl 1) (Fl 1)
           = Inr (Fl (- p))"
proof -
  obtain v where v: "CP_Seidel (Fl p) (Fl 0) (Fl 0) (Fl 1) (Fl (3/4)) (Fl 1) (Fl 2) (Fl 3) (Fl 1) (Fl 1) = Inr v"
    "0 \<le> (3::real) * 1 \<and> 0 / p \<le> 1 \<longrightarrow> v = Fl (seidel_real p 0 0 1 (3/4) 1 2 3 1 1)"
    using CP_Seidel_value[OF assms, of 1 2 0 0 "3/4" 1 3 1 1] by auto
  then show ?thesis using seidel_real_linear by simp
qed

text \<open>
  C1. The specification asks for the classic Runge-Kutta step, whose fourth slope is taken
  at the full-step trial state \<open>pressure + k3*dt\<close>. The code takes it at
  \<open>pressure + 0.5*k3*dt\<close>. With a vacuum outside, no burning surface, unit volume and
  gas data for which the derivative is \<open>- pressure\<close>, one step of size 1 from pressure 8
  gives 5/2, where the classic step gives 3.
\<close>

theorem solve_last_slope_half_step:
  "solve CP_Seidel (Fl 8) (Fl 0) (Fl 0) (Fl 1) (Fl (3/4)) (Fl 1) (Fl 2) (Fl 3) (Fl 1) (Fl 1) (Fl 1)
     = Inr [Fl (5/2)]
   \<and> rk4_step (\<lambda>p. seidel_real p 0 0 1 (3/4) 1 2 3 1 1) 8 1 = 3"
  by (simp add: solve_def seidel_linear seidel_real_linear rk4_step_def rk4_combine_def)


lemma solve_Inr_iff:
  "solve f P Pe Ab V At pp k R T r dt = Inr t \<longleftrightarrow>
     (\<exists>k1 k2 k3 k4.
        f P Pe Ab V At pp k R T r = Inr k1
      \<and> f (py_add P (py_mul (py_mul (Fl 0.5) k1) dt)) Pe Ab V At pp k R T r = Inr k2
      \<and> f (py_add P (py_mul (py_mul (Fl 0.5) k2) dt)) Pe Ab V At pp k R T r = Inr k3
      \<and> f (py_add P (py_mul (py_mul (Fl 0.5) k3) dt)) Pe Ab V At pp k R T r = Inr k4
      \<and> t = [py_add P (py_mul (py_mul (Fl (1 / 6))
                   (py_add (py_add k1 (py_mul (Fl 2) (py_add k2 k3))) k4)) dt)])"
  unfolding solve_def thn_eq_Inr by auto

text \<open>
  C10. Whatever \<open>solve\<close> returns is a tuple of exactly one element, and that element is the
  pressure combined from the four slopes the code evaluated, with weights 1:2:2:1 and the
  factor \<open>dt/6\<close>; \<open>solve\<close> returns such a tuple as soon as its four evaluations of the
  derivative return.
\<close>

theorem solve_one_element_tuple:
  "(solve f P Pe Ab V At pp k R T r dt = Inr t \<longrightarrow>
      length t = 1
    \<and> (\<exists>k1 k2 k3 k4.
          f P Pe Ab V At pp k R T r = Inr k1
        \<and> f (py_add P (py_mul (py_mul (Fl 0.5) k1) dt)) Pe Ab V At pp k R T r = Inr k2
        \<and> f (py_add P (py_mul (py_mul (Fl 0.5) k2) dt)) Pe Ab V At pp k R T r = Inr k3
        \<and> f (py_add P (py_mul (py_mul (Fl 0.5) k3) dt)) Pe Ab V At pp k R T r = Inr k4
        \<and> cx (t ! 0) = cx P + (cx dt / 6) * (cx k1 + 2 * cx k2 + 2 * cx k3 + cx k4)
        \<and> (\<forall>p a b c d h.
              P = Fl p \<and> k1 = Fl a \<and> k2 = Fl b \<and> k3 = Fl c \<and> k4 = Fl d \<and> dt = Fl h \<longrightarrow>
              t ! 0 = Fl (rk4_combine p a b c d h))))
 \<and> ((\<exists>k1 k2 k3 k4.
          f P Pe Ab V At pp k R T r = Inr k1
        \<and> f (py_add P (py_mul (py_mul (Fl 0.5) k1) dt)) Pe Ab V At pp k R T r = Inr k2
        \<and> f (py_add P (py_mul (py_mul (Fl 0.5) k2) dt)) Pe Ab V At pp k R T r = Inr k3
        \<and> f (py_add P (py_mul (py_mul (Fl 0.5) k3) dt)) Pe Ab V At pp k R T r = Inr k4)
      \<longrightarrow> (\<exists>x. solve f P Pe Ab V At pp k R T r dt = Inr [x]))"
proof (intro conjI impI)
  assume "solve f P Pe Ab V At pp k R T r dt = Inr t"
  then obtain k1 k2 k3 k4 where
      e: "f P Pe Ab V At pp k R T r = Inr k1"
         "f (py_add P (py_mul (py_mul (Fl 0.5) k1) dt)) Pe Ab V At pp k R T r = Inr k2"
         "f (py_add P (py_mul (py_mul (Fl 0.5) k2) dt)) Pe Ab V At pp k R T r = Inr k3"
         "f (py_add P (py_mul (py_mul (Fl 0.5) k3) dt)) Pe Ab V At pp k R T r = Inr k4"
    and t: "t = [py_add P (py_mul (py_mul (Fl (1 / 6))
                   (py_add (py_add k1 (py_mul (Fl 2) (py_add k2 k3))) k4)) dt)]"
    unfolding solve_Inr_iff by blast
  show "length t = 1" using t by simp
  have c: "cx (t ! 0) = cx P + (cx dt / 6) * (cx k1 + 2 * cx k2 + 2 * cx k3 + cx k4)"
    using t by (simp add: algebra_simps)
  have r: "\<forall>p a b c d h.
              P = Fl p \<and> k1 = Fl a \<and> k2 = Fl b \<and> k3 = Fl c \<and> k4 = Fl d \<and> dt = Fl h \<longrightarrow>
              t ! 0 = Fl (rk4_combine p a b c d h)"
    using t by (auto simp: rk4_combine_def algebra_simps)
  show "\<exists>k1 k2 k3 k4.
          f P Pe Ab V At pp k R T r = Inr k1
        \<and> f (py_add P (py_mul (py_mul (Fl 0.5) k1) dt)) Pe Ab V At pp k R T r = Inr k2
        \<and> f (py_add P (py_mul (py_mul (Fl 0.5) k2) dt)) Pe Ab V At pp k R T r = Inr k3
        \<and> f (py_add P (py_mul (py_mul (Fl 0.5) k3) dt)) Pe Ab V At pp k R T r = Inr k4
        \<and> cx (t ! 0) = cx P + (cx dt / 6) * (cx k1 + 2 * cx k2 + 2 * cx k3 + cx k4)
        \<and> (\<forall>p a b c d h.
              P = Fl p \<and> k1 = Fl a \<and> k2 = Fl b \<and> k3 = Fl c \<and> k4 = Fl d \<and> dt = Fl h \<longrightarrow>
              t ! 0 = Fl (rk4_combine p a b c d h))"
    using e c r by blast
next
  assume "\<exists>k1 k2 k3 k4.
          f P Pe Ab V At pp k R T r = Inr k1
        \<and> f (py_add P (py_mul (py_mul (Fl 0.5) k1) dt)) Pe Ab V At pp k R T r = Inr k2
        \<and> f (py_add P (py_mul (py_mul (Fl 0.5) k2) dt)) Pe Ab V At pp k R T r = Inr k3
        \<and> f (py_add P (py_mul (py_mul (Fl 0.5) k3) dt)) Pe Ab V At pp k R T r = Inr k4"
  then show "\<exists>x. solve f P Pe Ab V At pp k R T r dt = Inr [x]"
    unfolding solve_Inr_iff by blast
qed

theorem solve_one_element_tuple_witness:
  "solve CP_Seidel (Fl 6) (Fl 0) (Fl 0) (Fl 1) (Fl (3/4)) (Fl 1) (Fl 2) (Fl 3) (Fl 1) (Fl 1) (Fl 1)
     = Inr [Fl (15/8)]
   \<and> length [Fl (15/8)] = 1
   \<and> cx ([Fl (15/8)] ! 0) = cx (Fl 6) + (cx (Fl 1) / 6) * (cx (Fl (-6)) + 2 * cx (Fl (-3)) + 2 * cx (Fl (-9/2)) + cx (Fl (-15/4)))"
proof -
  have s: "solve CP_Seidel (Fl 6) (Fl 0) (Fl 0) (Fl 1) (Fl (3/4)) (Fl 1) (Fl 2) (Fl 3) (Fl 1) (Fl 1) (Fl 1)
     = Inr [Fl (15/8)]"
    by (simp add: solve_def seidel_linear)
  from solve_one_element_tuple [of CP_Seidel "Fl 6" "Fl 0" "Fl 0" "Fl 1" "Fl (3/4)" "Fl 1" "Fl 2"
      "Fl 3" "Fl 1" "Fl 1" "Fl 1" "[Fl (15/8)]"] s
  show ?thesis by simp
qed

section \<open>Web thickness of tube-burning segments\<close>

text \<open>
  C4 (amended). \<open>BatesSegment.get_web_thickness\<close> returns the radial half-gap
  \<open>0.5 * (D - d)\<close> whatever the length \<open>L\<close> of the segment is; it is the minimum of the radial
  half-gap and the half-length \<open>L / 2\<close> exactly when the radial half-gap does not exceed the
  half-length.
\<close>

theorem bates_web_thickness:
  "get_web_thickness s = 0.5 * (outer_diameter s - core_diameter s)
   \<and> (get_web_thickness s = min (0.5 * (outer_diameter s - core_diameter s)) (length_seg s / 2)
        \<longleftrightarrow> 0.5 * (outer_diameter s - core_diameter s) \<le> length_seg s / 2)"
  by (auto simp: get_web_thickness_def min_def)

theorem bates_web_thickness_witness:
  "get_web_thickness bates_segment_olympus_45 = 36 / 1000
   \<and> 0.5 * (outer_diameter bates_segment_olympus_45 - core_diameter bates_segment_olympus_45)
        \<le> length_seg bates_segment_olympus_45 / 2
   \<and> get_web_thickness bates_segment_olympus_45
        = min (0.5 * (outer_diameter bates_segment_olympus_45
                      - core_diameter bates_segment_olympus_45))
              (length_seg bates_segment_olympus_45 / 2)"
proof -
  have h: "0.5 * (outer_diameter bates_segment_olympus_45 - core_diameter bates_segment_olympus_45)
        \<le> length_seg bates_segment_olympus_45 / 2"
    by (simp add: bates_segment_olympus_45_def)
  have v: "0.5 * (outer_diameter bates_segment_olympus_45 - core_diameter bates_segment_olympus_45)
        = 36 / 1000"
    by (simp add: bates_segment_olympus_45_def)
  from bates_web_thickness [of bates_segment_olympus_45] h v show ?thesis by simp
qed

text \<open>
  A segment of outer diameter 100 mm, core diameter 50 mm and length 40 mm: the radial
  half-gap is 25 mm, the half-length 20 mm. \<open>get_web_thickness\<close> gives 25 mm, and so does the
  last web step of \<open>BATES.web\<close>, not the minimum.
\<close>

theorem bates_web_thickness_counterexample:
  "validate \<lparr>length_seg = 1/25, outer_diameter = 1/10, spacing = 1/100, inhibited_ends = 0, core_diameter = 1/20\<rparr>
     = Inr \<lparr>length_seg = 1/25, outer_diameter = 1/10, spacing = 1/100, inhibited_ends = 0, core_diameter = 1/20\<rparr>
   \<and> get_web_thickness \<lparr>length_seg = 1/25, outer_diameter = 1/10, spacing = 1/100, inhibited_ends = 0, core_diameter = 1/20\<rparr>
       = 1/40
   \<and> web \<lparr>wr = 2, N = 1, D_grain = 1/10, D_core = [1/20], L_grain = [1/25]\<rparr> = Inr [[0, 1/40]]
   \<and> min (0.5 * (1/10 - 1/20)) ((1/25) / 2) = (1/50 :: real)"
  by (simp add: validate_def base_valid_def get_web_thickness_def web_def web_row_def getitem_def
      linspace0_def upt_rec)

section \<open>Total length of a grain\<close>






section \<open>Contour length and core perimeter\<close>

lemma length_roll1 [simp]: "length (roll1 xs) = length xs"
  by (cases xs rule: rev_cases) (simp_all add: roll1_def)

lemma roll1_nth:
  assumes "i < length xs"
  shows "roll1 xs ! i = xs ! ((i + length xs - 1) mod length xs)"
proof (cases i)
  case 0
  with assms have "xs \<noteq> []" by auto
  then show ?thesis using 0 by (simp add: roll1_def last_conv_nth)
next
  case (Suc j)
  with assms have ne: "xs \<noteq> []" and j: "j < length xs - 1" by auto
  have "(i + length xs - 1) mod length xs = j"
    using Suc assms by simp
  moreover have "roll1 xs ! i = butlast xs ! j" using ne Suc by (simp add: roll1_def)
  moreover have "butlast xs ! j = xs ! j" using j by (simp add: nth_butlast)
  ultimately show ?thesis by simp
qed

lemma sum_list_filter_snd:
  "sum_list (map fst (filter snd ps)) = (\<Sum>p\<leftarrow>ps. if snd p then fst p else (0::real))"
  by (induction ps) simp_all

lemma sum_list_if_index:
  "(\<Sum>i\<leftarrow>[0..<n]. if P i then f i else (0::real)) = (\<Sum>i\<in>{i. i < n \<and> P i}. f i)"
proof -
  have "(\<Sum>i\<leftarrow>[0..<n]. if P i then f i else 0) = (\<Sum>i\<in>{0..<n}. if P i then f i else 0)"
    by (simp add: sum_list_distinct_conv_sum_set)
  also have "\<dots> = (\<Sum>i\<in>{i \<in> {0..<n}. P i}. f i)"
    by (rule sum.inter_filter [symmetric]) simp
  also have "{i \<in> {0..<n}. P i} = {i. i < n \<and> P i}" by auto
  finally show ?thesis .
qed

lemma get_length_sum:
  "get_length contour map_size tolerance
     = (\<Sum>i\<in>{i. i < length contour \<and> inside contour map_size tolerance i}.
          segment_length contour i)"
proof -
  let ?n = "length contour"
  let ?lengths = "map (\<lambda>(p, q). norm2 (minus_point p q)) (zip contour (roll1 contour))"
  let ?valid = "map (\<lambda>r. r < real_of_int map_size / 2 - tolerance)
      (map (\<lambda>p. norm2 (minus_point p (real_of_int map_size / 2, real_of_int map_size / 2))) contour)"
  have zip_eq: "zip ?lengths ?valid
      = map (\<lambda>i. (segment_length contour i, inside contour map_size tolerance i)) [0..<?n]"
    by (rule nth_equalityI) (simp_all add: segment_length_def inside_def roll1_nth)
  have "get_length contour map_size tolerance = sum_list (map fst (filter snd (zip ?lengths ?valid)))"
    by (simp add: get_length_def Let_def)
  also have "\<dots> = (\<Sum>i\<leftarrow>[0..<?n]. if inside contour map_size tolerance i
                       then segment_length contour i else 0)"
    unfolding zip_eq sum_list_filter_snd by (simp add: comp_def cong: if_cong)
  also have "\<dots> = (\<Sum>i\<in>{i. i < ?n \<and> inside contour map_size tolerance i}.
          segment_length contour i)"
    by (rule sum_list_if_index)
  finally show ?thesis .
qed

text \<open>
  C9 (amended). \<open>get_length\<close> sums exactly the lengths of those inter-point segments whose
  end point lies inside the outer boundary by more than the tolerance, that is, at radius
  below \<open>map_size/2 - tolerance\<close> from the centre of the map; the point a segment starts at,
  which is the preceding point of the contour and the last point for the first segment,
  is not tested. The core perimeter applies it to every contour with the default
  tolerance of 3 grid cells.
\<close>

theorem get_length_sums_inside_segments:
  "get_length contour map_size tolerance
     = (\<Sum>i\<in>{i. i < length contour \<and> inside contour map_size tolerance i}.
          segment_length contour i)
   \<and> get_core_perimeter s web_distance
     = (\<Sum>c\<leftarrow>contours s web_distance.
          map_to_length s
            (\<Sum>i\<in>{i. i < length c \<and> inside c (map_dim s) 3 i}. segment_length c i))"
  by (simp add: get_length_sum get_core_perimeter_def default_tolerance_def)

lemma sqrt_squares: "sqrt 9 = 3" "sqrt 16 = 4" "sqrt 25 = 5" "sqrt 64 = 8"
proof -
  have "sqrt (3\<^sup>2) = 3" "sqrt (4\<^sup>2) = 4" "sqrt (5\<^sup>2) = 5" "sqrt (8\<^sup>2) = 8"
    by (simp_all only: real_sqrt_abs)
  then show "sqrt 9 = 3" "sqrt 16 = 4" "sqrt 25 = 5" "sqrt 64 = 8" by simp_all
qed

theorem get_length_sums_inside_segments_witness:
  "get_length [(10, 10), (13, 10), (13, 14), (10, 18)] 20 3
     = (\<Sum>i\<in>{i. i < length [(10, 10), (13, 10), (13, 14), (10, 18) :: point]
               \<and> inside [(10, 10), (13, 10), (13, 14), (10, 18)] 20 3 i}.
          segment_length [(10, 10), (13, 10), (13, 14), (10, 18)] i)
   \<and> get_length [(10, 10), (13, 10), (13, 14), (10, 18)] 20 3 = 15"
proof -
  have "get_length [(10, 10), (13, 10), (13, 14), (10, 18)] 20 3 = 15"
    by (simp add: get_length_def roll1_def norm2_def minus_point_def sqrt_squares)
  with get_length_sums_inside_segments [of "[(10, 10), (13, 10), (13, 14), (10, 18)]" 20 3]
  show ?thesis by simp
qed

text \<open>
  A contour of four points on a map of size 20 with tolerance 3, the last point at radius
  8 and so within the tolerance of the edge. Segment 0 runs from that point to the first
  point and has length 8; it is summed although one of its two points is at the edge. The
  segments with both points inside, 1 and 2, have lengths 3 and 4, so a sum over them
  would be 7; the code returns 15.
\<close>

theorem get_length_sums_inside_segments_counterexample:
  "get_length [(10, 10), (13, 10), (13, 14), (10, 18)] 20 3 = 15
   \<and> segment_length [(10, 10), (13, 10), (13, 14), (10, 18)] 0 = 8
   \<and> segment_length [(10, 10), (13, 10), (13, 14), (10, 18)] 1 = 3
   \<and> segment_length [(10, 10), (13, 10), (13, 14), (10, 18)] 2 = 4
   \<and> segment_length [(10, 10), (13, 10), (13, 14), (10, 18)] 3 = 5
   \<and> inside [(10, 10), (13, 10), (13, 14), (10, 18)] 20 3 0
   \<and> inside [(10, 10), (13, 10), (13, 14), (10, 18)] 20 3 1
   \<and> inside [(10, 10), (13, 10), (13, 14), (10, 18)] 20 3 2
   \<and> \<not> inside [(10, 10), (13, 10), (13, 14), (10, 18)] 20 3 3"
  by (simp add: get_length_def roll1_def norm2_def minus_point_def sqrt_squares
      segment_length_def inside_def)

section \<open>The centre of gravity of a raster segment\<close>

lemma distinct_concat_map_fst:
  assumes "distinct (map fst ps)"
    and "\<And>p. p \<in> set ps \<Longrightarrow> distinct (g p) \<and> (\<forall>c\<in>set (g p). fst c = fst p)"
  shows "distinct (concat (map g ps))"
  using assms
proof (induction ps)
  case Nil
  then show ?case by simp
next
  case (Cons p ps)
  have d: "distinct (concat (map g ps))" using Cons by simp
  have "set (g p) \<inter> set (concat (map g ps)) = {}"
  proof (rule ccontr)
    assume "set (g p) \<inter> set (concat (map g ps)) \<noteq> {}"
    then obtain c q where c: "c \<in> set (g p)" "q \<in> set ps" "c \<in> set (g q)" by auto
    then have "fst c = fst p" "fst c = fst q" using Cons.prems(2) by auto
    then have "fst p \<in> fst ` set ps" using c(2) by (metis imageI)
    then show False using Cons.prems(1) by simp
  qed
  then show ?case using d Cons.prems(2) by simp
qed

lemma row_cells_distinct:
  "distinct (map (\<lambda>(x, v). (y, x)) (filter (\<lambda>(x, v). v = (1::int)) (enumerate 0 row)))"
proof -
  have "distinct (map fst (filter (\<lambda>(x, v). v = (1::int)) (enumerate 0 row)))"
    by (rule distinct_map_filter) simp
  moreover have "map (\<lambda>(x, v). (y, x)) (filter (\<lambda>(x, v). v = (1::int)) (enumerate 0 row))
      = map (Pair y) (map fst (filter (\<lambda>(x, v). v = (1::int)) (enumerate 0 row)))"
    by (simp add: case_prod_unfold comp_def)
  ultimately show ?thesis by (simp add: distinct_map inj_on_def del: map_map)
qed

lemma distinct_where_one: "distinct (where_one m)"
  unfolding where_one_def
proof (rule distinct_concat_map_fst)
  show "distinct (map fst (enumerate 0 m))" by simp
next
  fix p assume "p \<in> set (enumerate 0 m)"
  show "distinct (case p of (y, row) \<Rightarrow>
          map (\<lambda>(x, v). (y, x)) (filter (\<lambda>(x, v). v = 1) (enumerate 0 row)))
      \<and> (\<forall>c\<in>set (case p of (y, row) \<Rightarrow>
          map (\<lambda>(x, v). (y, x)) (filter (\<lambda>(x, v). v = 1) (enumerate 0 row))). fst c = fst p)"
    by (cases p) (auto simp: row_cells_distinct)
qed

lemma set_where_one: "set (where_one m) = solid_cells m"
proof (rule set_eqI)
  fix c :: "nat \<times> nat"
  obtain y x where c: "c = (y, x)" by (cases c)
  have "c \<in> set (where_one m) \<longleftrightarrow> y < length m \<and> x < length (m ! y) \<and> m ! y ! x = 1"
  proof
    assume "c \<in> set (where_one m)"
    then show "y < length m \<and> x < length (m ! y) \<and> m ! y ! x = 1"
      unfolding c where_one_def by (auto simp: in_set_enumerate_eq)
  next
    assume a: "y < length m \<and> x < length (m ! y) \<and> m ! y ! x = 1"
    then have r: "(y, m ! y) \<in> set (enumerate 0 m)" by (simp add: in_set_enumerate_eq)
    have e: "(x, m ! y ! x) \<in> set (enumerate 0 (m ! y))" using a by (simp add: in_set_enumerate_eq)
    have "(y, x) \<in> set (map (\<lambda>(x, v). (y, x)) (filter (\<lambda>(x, v). v = 1) (enumerate 0 (m ! y))))"
      using e a by force
    then show "c \<in> set (where_one m)"
      unfolding c where_one_def using r by force
  qed
  then show "c \<in> set (where_one m) \<longleftrightarrow> c \<in> solid_cells m"
    by (simp add: solid_cells_def c)
qed

lemma mean_shift:
  assumes "xs \<noteq> []"
  shows "mean (map (\<lambda>x. f x - c) xs) = (\<Sum>x\<leftarrow>xs. f x) / real (length xs) - c"
proof -
  have "(\<Sum>x\<leftarrow>xs. f x - c) = (\<Sum>x\<leftarrow>xs. f x) - real (length xs) * c"
    by (induction xs) (simp_all add: algebra_simps)
  then show ?thesis using assms by (simp add: mean_def diff_divide_distrib)
qed

lemma centroid_where_one:
  "centroid (solid_cells m)
     = ((\<Sum>c\<leftarrow>where_one m. real (snd c)) / real (length (where_one m)),
        (\<Sum>c\<leftarrow>where_one m. real (fst c)) / real (length (where_one m)))"
  unfolding centroid_def set_where_one[symmetric]
  by (simp add: sum_list_distinct_conv_sum_set distinct_where_one distinct_card)

text \<open>
  C8. For every raster segment, \<open>get_center_of_gravity\<close> raises GrainGeometryError if and
  only if the web distance exceeds the web thickness of the segment or no solid cell
  remains at that web distance, and it raises nothing else. Otherwise (the map having
  \<open>map_dim\<close> cells per side, so \<open>map_dim\<close> is not zero when a solid cell remains) it returns
  the centroid of the remaining solid cells, shifted to the centre of the map and scaled
  to physical length, with half the segment length as axial coordinate.
\<close>

theorem center_of_gravity_cases:
  "(get_center_of_gravity s x = Inl GrainGeometryError
      \<longleftrightarrow> x > web_thickness s \<or> solid_cells (face_map s x) = {})
   \<and> (\<forall>e. get_center_of_gravity s x = Inl e \<longrightarrow> e = GrainGeometryError)
   \<and> (\<not> (x > web_thickness s \<or> solid_cells (face_map s x) = {}) \<and> map_dim s \<noteq> 0 \<longrightarrow>
        get_center_of_gravity s x
          = Inr (map_to_length s (fst (centroid (solid_cells (face_map s x)))
                                   - real_of_int (map_dim s) / 2),
                 map_to_length s (snd (centroid (solid_cells (face_map s x)))
                                   - real_of_int (map_dim s) / 2),
                 length_seg s / 2))"
proof -
  let ?cells = "where_one (face_map s x)"
  have empty: "?cells = [] \<longleftrightarrow> solid_cells (face_map s x) = {}"
    using set_where_one[of "face_map s x"] by (metis set_empty)
  show ?thesis
  proof (cases "x > web_thickness s \<or> solid_cells (face_map s x) = {}")
    case True
    then show ?thesis using empty by (auto simp: get_center_of_gravity_def Let_def)
  next
    case False
    then have ne: "?cells \<noteq> []" and le: "\<not> x > web_thickness s" using empty by auto
    have mx: "mean (map (\<lambda>c. real (snd c) - real_of_int (map_dim s) / 2) ?cells)
        = fst (centroid (solid_cells (face_map s x))) - real_of_int (map_dim s) / 2"
      using mean_shift[of ?cells "\<lambda>c. real (snd c)"] ne
      by (simp add: centroid_where_one)
    have my: "mean (map (\<lambda>c. real (fst c) - real_of_int (map_dim s) / 2) ?cells)
        = snd (centroid (solid_cells (face_map s x))) - real_of_int (map_dim s) / 2"
      using mean_shift[of ?cells "\<lambda>c. real (fst c)"] ne
      by (simp add: centroid_where_one)
    have "get_center_of_gravity s x
          = Inr (map_to_length s (fst (centroid (solid_cells (face_map s x)))
                                   - real_of_int (map_dim s) / 2),
                 map_to_length s (snd (centroid (solid_cells (face_map s x)))
                                   - real_of_int (map_dim s) / 2),
                 length_seg s / 2)"
      using ne le by (simp add: get_center_of_gravity_def Let_def comp_def mx my)
    then show ?thesis using False by simp
  qed
qed

lemma example_where_one:
  "where_one (face_map example_raster_segment 0) = [(0, 1), (1, 0), (1, 1)]"
  by (simp add: example_raster_segment_def where_one_def)

lemma example_fields:
  "web_thickness example_raster_segment = 1 / 100" "map_dim example_raster_segment = 2"
  "outer_diameter example_raster_segment = 1 / 10" "length_seg example_raster_segment = 68 / 1000"
  by (simp_all add: example_raster_segment_def)

lemma example_center_of_gravity:
  "get_center_of_gravity example_raster_segment 0 = Inr (- 1 / 60, - 1 / 60, 34 / 1000)"
  by (simp add: get_center_of_gravity_def Let_def example_where_one mean_def map_to_length_def
      example_fields)

theorem center_of_gravity_cases_witness:
  "\<not> (0 > web_thickness example_raster_segment
       \<or> solid_cells (face_map example_raster_segment 0) = {})
   \<and> map_dim example_raster_segment \<noteq> 0
   \<and> get_center_of_gravity example_raster_segment 0 = Inr (- 1 / 60, - 1 / 60, 34 / 1000)
   \<and> centroid (solid_cells (face_map example_raster_segment 0)) = (2 / 3, 2 / 3)
   \<and> 2 / 100 > web_thickness example_raster_segment
   \<and> get_center_of_gravity example_raster_segment (2 / 100) = Inl GrainGeometryError"
proof -
  have ne: "solid_cells (face_map example_raster_segment 0) \<noteq> {}"
    using set_where_one[of "face_map example_raster_segment 0"] example_where_one by auto
  have c: "centroid (solid_cells (face_map example_raster_segment 0)) = (2 / 3, 2 / 3)"
    by (simp add: centroid_where_one example_where_one)
  from center_of_gravity_cases [of example_raster_segment 0]
       center_of_gravity_cases [of example_raster_segment "2 / 100"]
       example_center_of_gravity ne c
  show ?thesis by (simp add: example_fields)
qed

section \<open>Queries beyond the web thickness\<close>






section \<open>Thrust-coefficient losses above the critical pressure ratio\<close>

lemma two_phase_coefficients_arrays:
  assumes "two_phase_coefficients Dt M i st = Inr st'"
  shows "n_kin st' = n_kin st \<and> n_tp st' = n_tp st \<and> n_bl st' = n_bl st"
  using assms
  by (auto simp: two_phase_coefficients_def thn_eq_Inr Let_def split: if_splits)

lemma losses_below_critical_arrays:
  assumes "losses_below_critical P0psi E Dt qsi C1 C2 V0 M t i st = Inr st'"
  shows "n_kin st' = n_kin st \<and> (\<exists>x. n_tp st' = (n_tp st)[i := x])
         \<and> (\<exists>y. n_bl st' = (n_bl st)[i := y])"
proof -
  from assms obtain v1 v2 v3 v4 st5 v5 where
    tp: "two_phase_coefficients Dt M i
           (st\<lparr>termC2 := (termC2 st)[i := v1], E_cf := (E_cf st)[i := v2],
               n_bl := (n_bl st)[i := v3], C7 := (C7 st)[i := v4]\<rparr>) = Inr st5"
    and st': "st' = st5\<lparr>n_tp := (n_tp st5)[i := v5]\<rparr>"
    unfolding losses_below_critical_def thn_eq_Inr Let_def by auto
  from two_phase_coefficients_arrays[OF tp] st' show ?thesis by auto
qed


lemma kinetic_losses_result:
  assumes "kinetic_losses P0psi Isp_frozen Isp_shifting i st = Inr st'"
  shows "i < length P0psi
       \<and> st' = st\<lparr>n_kin := (n_kin st)[i := kinetic_loss_percent (P0psi ! i) Isp_frozen Isp_shifting]\<rparr>"
  using assms
  by (auto simp: kinetic_losses_def kinetic_loss_percent_def thn_eq_Inr getitem_def item_def
      store_def e_defs split: if_splits)

lemma ocf_step_result:
  assumes "ocf_step P0 Pe P0psi Isp_frozen Isp_shifting E Dt qsi cpr C1 C2 V0 M t i st = Inr st'"
  shows "n_kin st' = (n_kin st)[i := kinetic_loss_percent (P0psi ! i) Isp_frozen Isp_shifting]
       \<and> (\<exists>x. n_tp st' = (n_tp st)[i := x] \<and> (Pe / P0 ! i > cpr \<longrightarrow> x = 0))
       \<and> (\<exists>y. n_bl st' = (n_bl st)[i := y] \<and> (Pe / P0 ! i > cpr \<longrightarrow> y = 0))"
proof -
  from assms obtain st1 where
    k: "kinetic_losses P0psi Isp_frozen Isp_shifting i st = Inr st1"
    and i: "i < length P0" and nz: "P0 ! i \<noteq> 0"
    and rest: "(if Pe / P0 ! i \<le> cpr
                then losses_below_critical P0psi E Dt qsi C1 C2 V0 M t i st1
                else Inr (st1\<lparr>n_tp := (n_tp st1)[i := 0], n_bl := (n_bl st1)[i := 0]\<rparr>)) = Inr st'"
    unfolding ocf_step_def thn_eq_Inr getitem_def float_div_def
    by (auto split: if_splits)
  from kinetic_losses_result[OF k]
  have st1: "st1 = st\<lparr>n_kin := (n_kin st)[i := kinetic_loss_percent (P0psi ! i) Isp_frozen Isp_shifting]\<rparr>"
    by simp
  show ?thesis
  proof (cases "Pe / P0 ! i \<le> cpr")
    case True
    with rest have "losses_below_critical P0psi E Dt qsi C1 C2 V0 M t i st1 = Inr st'" by simp
    from losses_below_critical_arrays[OF this] st1 True show ?thesis by auto
  next
    case False
    with rest st1 show ?thesis by auto
  qed
qed

lemma ocf_loop_untouched:
  assumes "ocf_loop P0 Pe P0psi Isp_frozen Isp_shifting E Dt qsi cpr C1 C2 V0 M t js st = Inr st'"
    and "i \<notin> set js"
  shows "n_kin st' ! i = n_kin st ! i \<and> n_tp st' ! i = n_tp st ! i \<and> n_bl st' ! i = n_bl st ! i"
  using assms
proof (induction js arbitrary: st)
  case Nil
  then show ?case by simp
next
  case (Cons j js)
  from Cons.prems obtain st1 where
    s: "ocf_step P0 Pe P0psi Isp_frozen Isp_shifting E Dt qsi cpr C1 C2 V0 M t j st = Inr st1"
    and l: "ocf_loop P0 Pe P0psi Isp_frozen Isp_shifting E Dt qsi cpr C1 C2 V0 M t js st1 = Inr st'"
    by (auto simp: thn_eq_Inr)
  have ne: "j \<noteq> i" and ni: "i \<notin> set js" using Cons.prems(2) by auto
  from ocf_step_result[OF s] ne
  have "n_kin st1 ! i = n_kin st ! i \<and> n_tp st1 ! i = n_tp st ! i \<and> n_bl st1 ! i = n_bl st ! i"
    by auto
  with Cons.IH[OF l ni] show ?case by simp
qed

lemma ocf_loop_visited:
  assumes "ocf_loop P0 Pe P0psi Isp_frozen Isp_shifting E Dt qsi cpr C1 C2 V0 M t js st = Inr st'"
    and "distinct js" "i \<in> set js"
    and "i < length (n_kin st)" "i < length (n_tp st)" "i < length (n_bl st)"
  shows "n_kin st' ! i = kinetic_loss_percent (P0psi ! i) Isp_frozen Isp_shifting
       \<and> (Pe / P0 ! i > cpr \<longrightarrow> n_tp st' ! i = 0 \<and> n_bl st' ! i = 0)"
  using assms
proof (induction js arbitrary: st)
  case Nil
  then show ?case by simp
next
  case (Cons j js)
  from Cons.prems(1) obtain st1 where
    s: "ocf_step P0 Pe P0psi Isp_frozen Isp_shifting E Dt qsi cpr C1 C2 V0 M t j st = Inr st1"
    and l: "ocf_loop P0 Pe P0psi Isp_frozen Isp_shifting E Dt qsi cpr C1 C2 V0 M t js st1 = Inr st'"
    by (auto simp: thn_eq_Inr)
  note r = ocf_step_result[OF s]
  show ?case
  proof (cases "i = j")
    case True
    then have "i \<notin> set js" using Cons.prems(2) by simp
    from ocf_loop_untouched[OF l this] r True Cons.prems(4,5,6) show ?thesis by auto
  next
    case False
    then have "i \<in> set js" using Cons.prems(3) by simp
    moreover have "distinct js" using Cons.prems(2) by simp
    moreover have "i < length (n_kin st1)" "i < length (n_tp st1)" "i < length (n_bl st1)"
      using r Cons.prems(4,5,6) by auto
    ultimately show ?thesis using Cons.IH[OF l] by blast
  qed
qed

text \<open>
  C7 (amended). At every time index \<open>i\<close> at which \<open>Pe/P0[i]\<close> is above the critical pressure
  ratio, \<open>operational_correction_factors\<close> returns zero for the two-phase loss \<open>n_tp\<close> and the
  boundary-layer loss \<open>n_bl\<close>. The kinetic loss \<open>n_kin\<close> does not look at the pressure ratio:
  at every index it is \<open>33.3*200*(Isp_frozen/Isp_shifting)/P0psi[i]\<close> when \<open>P0psi[i] \<ge> 200\<close>
  and zero otherwise.
\<close>

theorem losses_above_critical_ratio:
  assumes "operational_correction_factors P0 Pe P0psi Isp_frozen Isp_shifting E Dt qsi index
             critical_pressure_ratio C1 C2 V0 M t = Inr (kin, tp, bl)"
    and "int i < index"
  shows "kin ! i = kinetic_loss_percent (P0psi ! i) Isp_frozen Isp_shifting
       \<and> (Pe / P0 ! i > critical_pressure_ratio \<longrightarrow> tp ! i = 0 \<and> bl ! i = 0)"
proof -
  let ?z = "replicate (nat index) (0::real)"
  from assms(1) obtain st where
    l: "ocf_loop P0 Pe P0psi Isp_frozen Isp_shifting E Dt qsi critical_pressure_ratio
                   C1 C2 V0 M t [0..<nat index]
                   \<lparr>C7 = ?z, termC2 = ?z, E_cf = ?z, n_cf = ?z, n_kin = ?z, n_bl = ?z, n_tp = ?z,
                    C3 = None, C4 = None, C5 = None, C6 = None\<rparr> = Inr st"
    and r: "kin = n_kin st" "tp = n_tp st" "bl = n_bl st"
    unfolding operational_correction_factors_def zeros_def thn_eq_Inr
    by (auto split: if_splits)
  have i: "i < nat index" using assms(2) by simp
  from ocf_loop_visited[OF l] i r show ?thesis by simp
qed

text \<open>
  A single step at 2 MPa (290 psi) chamber pressure and 1.5 MPa exit pressure, with a
  critical pressure ratio of 0.58: the pressure ratio 0.75 is above it, and the kinetic
  loss is about 22 percent, not zero.
\<close>

theorem losses_above_critical_ratio_counterexample:
  "1500000 / [2000000] ! 0 > (29 / 50 :: real)
   \<and> operational_correction_factors [2000000] 1500000 [290] 240 250 [8] (37 / 1000) (1 / 10) 1
        (29 / 50) 1 1 [1, 1] 1 [0]
      = Inr ([15984 / 725], [0], [0])
   \<and> (15984 / 725 :: real) \<noteq> 0"
  by (simp add: operational_correction_factors_def zeros_def ocf_step_def kinetic_losses_def
      getitem_def item_def store_def float_div_def e_defs)

theorem losses_above_critical_ratio_witness:
  "operational_correction_factors [2000000] 1500000 [290] 240 250 [8] (37 / 1000) (1 / 10) 1
        (29 / 50) 1 1 [1, 1] 1 [0]
      = Inr ([15984 / 725], [0], [0])
   \<and> int 0 < 1
   \<and> [15984 / 725] ! 0 = kinetic_loss_percent ([290] ! 0) 240 250
   \<and> 1500000 / [2000000] ! 0 > (29 / 50 :: real) \<and> [0::real] ! 0 = 0"
proof -
  have e: "operational_correction_factors [2000000] 1500000 [290] 240 250 [8] (37 / 1000) (1 / 10) 1
        (29 / 50) 1 1 [1, 1] 1 [0]
      = Inr ([15984 / 725], [0], [0])"
    by (simp add: operational_correction_factors_def zeros_def ocf_step_def kinetic_losses_def
      getitem_def item_def store_def float_div_def e_defs)
  from losses_above_critical_ratio [OF e, of 0] e show ?thesis by simp
qed
end
